theory Spec2Isabelle
  imports Complex_Main "HOL-Library.Word"
begin

unbundle bit_operations_syntax

section \<open>The hash behind the cache key\<close>

text \<open>
  \<^verbatim>\<open>generateCacheKey\<close> (utils/helpers.ts) hands the string \<^verbatim>\<open>`${type}:${content}`\<close> to
  Node's \<^verbatim>\<open>crypto\<close> module. The module is a library, so SHA-256 is written out here as
  FIPS 180-4 defines it: 32-bit words that wrap around, 64-byte blocks, eight chaining
  words. Strings are byte strings: a \<^typ>\<open>char\<close> stands for one byte of the UTF-8
  encoding that \<^verbatim>\<open>update\<close> applies to its argument.
\<close>

type_synonym u32 = "32 word"
type_synonym byte = "8 word"

definition rotr :: "nat \<Rightarrow> u32 \<Rightarrow> u32" where
  "rotr n x = (drop_bit n x) OR (push_bit (32 - n) x)"

definition Ch :: "u32 \<Rightarrow> u32 \<Rightarrow> u32 \<Rightarrow> u32" where
  "Ch x y z = (x AND y) XOR (NOT x AND z)"

definition Maj :: "u32 \<Rightarrow> u32 \<Rightarrow> u32 \<Rightarrow> u32" where
  "Maj x y z = (x AND y) XOR (x AND z) XOR (y AND z)"

definition bsig0 :: "u32 \<Rightarrow> u32" where
  "bsig0 x = rotr 2 x XOR rotr 13 x XOR rotr 22 x"

definition bsig1 :: "u32 \<Rightarrow> u32" where
  "bsig1 x = rotr 6 x XOR rotr 11 x XOR rotr 25 x"

definition ssig0 :: "u32 \<Rightarrow> u32" where
  "ssig0 x = rotr 7 x XOR rotr 18 x XOR drop_bit 3 x"

definition ssig1 :: "u32 \<Rightarrow> u32" where
  "ssig1 x = rotr 17 x XOR rotr 19 x XOR drop_bit 10 x"

text \<open>
  The round constants: the first 32 bits of the fractional parts of the cube roots of the
  first 64 primes, in decimal.
\<close>

definition K256 :: "u32 list" where
  "K256 = [
    1116352408, 1899447441, 3049323471, 3921009573, 961987163, 1508970993,
    2453635748, 2870763221, 3624381080, 310598401, 607225278, 1426881987,
    1925078388, 2162078206, 2614888103, 3248222580, 3835390401, 4022224774,
    264347078, 604807628, 770255983, 1249150122, 1555081692, 1996064986,
    2554220882, 2821834349, 2952996808, 3210313671, 3336571891, 3584528711,
    113926993, 338241895, 666307205, 773529912, 1294757372, 1396182291,
    1695183700, 1986661051, 2177026350, 2456956037, 2730485921, 2820302411,
    3259730800, 3345764771, 3516065817, 3600352804, 4094571909, 275423344,
    430227734, 506948616, 659060556, 883997877, 958139571, 1322822218,
    1537002063, 1747873779, 1955562222, 2024104815, 2227730452, 2361852424,
    2428436474, 2756734187, 3204031479, 3329325298]"

record hash_state =
  h0 :: u32  h1 :: u32  h2 :: u32  h3 :: u32
  h4 :: u32  h5 :: u32  h6 :: u32  h7 :: u32

definition H256_init :: hash_state where
  "H256_init = \<lparr>h0 = 0x6a09e667, h1 = 0xbb67ae85, h2 = 0x3c6ef372, h3 = 0xa54ff53a,
                 h4 = 0x510e527f, h5 = 0x9b05688c, h6 = 0x1f83d9ab, h7 = 0x5be0cd19\<rparr>"

fun be_word :: "byte list \<Rightarrow> u32" where
  "be_word [] = 0"
| "be_word (b # bs) = push_bit (8 * length bs) (ucast b) OR be_word bs"

fun words_of :: "nat \<Rightarrow> byte list \<Rightarrow> u32 list" where
  "words_of 0 bs = []"
| "words_of (Suc n) bs = be_word (take 4 bs) # words_of n (drop 4 bs)"

text \<open>The message schedule is built newest word first.\<close>

fun expand :: "nat \<Rightarrow> u32 list \<Rightarrow> u32 list" where
  "expand 0 ws = ws"
| "expand (Suc n) ws =
     expand n ((ssig1 (ws ! 1) + ws ! 6 + ssig0 (ws ! 14) + ws ! 15) # ws)"

fun sha_round :: "hash_state \<Rightarrow> u32 \<times> u32 \<Rightarrow> hash_state" where
  "sha_round s (k, w) =
     (let t1 = h7 s + bsig1 (h4 s) + Ch (h4 s) (h5 s) (h6 s) + k + w;
          t2 = bsig0 (h0 s) + Maj (h0 s) (h1 s) (h2 s)
      in \<lparr>h0 = t1 + t2, h1 = h0 s, h2 = h1 s, h3 = h2 s,
          h4 = h3 s + t1, h5 = h4 s, h6 = h5 s, h7 = h6 s\<rparr>)"

definition compress :: "hash_state \<Rightarrow> byte list \<Rightarrow> hash_state" where
  "compress s block =
     (let ws = rev (expand 48 (rev (words_of 16 block)));
          t = foldl sha_round s (zip K256 ws)
      in \<lparr>h0 = h0 s + h0 t, h1 = h1 s + h1 t, h2 = h2 s + h2 t, h3 = h3 s + h3 t,
          h4 = h4 s + h4 t, h5 = h5 s + h5 t, h6 = h6 s + h6 t, h7 = h7 s + h7 t\<rparr>)"

definition length_bytes :: "64 word \<Rightarrow> byte list" where
  "length_bytes v = map (\<lambda>i. ucast (drop_bit (8 * i) v)) [7, 6, 5, 4, 3, 2, 1, 0]"

definition pad :: "byte list \<Rightarrow> byte list" where
  "pad m = m @ [0x80] @ replicate ((55 + 64 - length m mod 64) mod 64) 0
             @ length_bytes (of_nat (8 * length m))"

fun blocks :: "nat \<Rightarrow> hash_state \<Rightarrow> byte list \<Rightarrow> hash_state" where
  "blocks 0 s bs = s"
| "blocks (Suc n) s bs = blocks n (compress s (take 64 bs)) (drop 64 bs)"

definition word_bytes :: "u32 \<Rightarrow> byte list" where
  "word_bytes w = [ucast (drop_bit 24 w), ucast (drop_bit 16 w), ucast (drop_bit 8 w), ucast w]"

definition sha256 :: "byte list \<Rightarrow> byte list" where
  "sha256 m =
     (let p = pad m; s = blocks (length p div 64) H256_init p
      in concat (map word_bytes [h0 s, h1 s, h2 s, h3 s, h4 s, h5 s, h6 s, h7 s]))"

definition hex_digit :: "nat \<Rightarrow> char" where
  "hex_digit n = ''0123456789abcdef'' ! n"

definition hex_byte :: "byte \<Rightarrow> string" where
  "hex_byte b = [hex_digit (unat (drop_bit 4 b)), hex_digit (unat (b AND 15))]"

definition hex_encode :: "byte list \<Rightarrow> string" where
  "hex_encode bs = concat (map hex_byte bs)"

definition utf8 :: "string \<Rightarrow> byte list" where
  "utf8 s = map of_char s"




subsection \<open>The hash object of the crypto module\<close>

text \<open>
  \<^verbatim>\<open>crypto.createHash('sha256')\<close> starts an object that collects input,
  \<^verbatim>\<open>update\<close> appends the bytes of a string to it and \<^verbatim>\<open>digest('hex')\<close> hashes what was
  collected and prints it in lowercase hexadecimal.
\<close>

record hash_object =
  collected :: "byte list"

definition createHash_sha256 :: hash_object where
  "createHash_sha256 = \<lparr>collected = []\<rparr>"

definition update_hash :: "hash_object \<Rightarrow> string \<Rightarrow> hash_object" where
  "update_hash h s = h\<lparr>collected := collected h @ utf8 s\<rparr>"

definition digest_hex :: "hash_object \<Rightarrow> string" where
  "digest_hex h = hex_encode (sha256 (collected h))"

definition generateCacheKey :: "string \<Rightarrow> string \<Rightarrow> string" where
  "generateCacheKey content type = digest_hex (update_hash createHash_sha256 (type @ '':'' @ content))"

text \<open>
  The key as the specification words it: the hexadecimal SHA-256 digest of the kind, a
  colon and the content.
\<close>

definition spec_cache_key :: "string \<Rightarrow> string \<Rightarrow> string" where
  "spec_cache_key kind content = hex_encode (sha256 (utf8 (kind @ '':'' @ content)))"

section \<open>Errors, JSON values and the built-ins of the runtime\<close>

text \<open>
  Every \<^verbatim>\<open>throw\<close> and every rejected promise of the source is a value \<open>Inl e\<close>;
  an \<^verbatim>\<open>async\<close> method is a function from the state of the world to its outcome and the
  state it leaves behind.
\<close>

datatype error =
    AppError string nat
  | ReferenceError string
  | TypeError string
  | SyntaxError
  | ProviderError
  | RedisError
  | PrismaError string

fun error_message :: "error \<Rightarrow> string" where
  "error_message (AppError m c) = m"
| "error_message (ReferenceError m) = m"
| "error_message (TypeError m) = m"
| "error_message SyntaxError = ''Unexpected token in JSON''"
| "error_message ProviderError = ''Request failed''"
| "error_message RedisError = ''Reached the max retries per request limit''"
| "error_message (PrismaError m) = m"

datatype json =
    JNull
  | JBool bool
  | JNum rat
  | JStr string
  | JArr "json list"
  | JObj "(string \<times> json) list"

text \<open>What \<^verbatim>\<open>if (v)\<close> makes of a value: null, false, 0 and the empty string are falsy.\<close>

fun truthy :: "json \<Rightarrow> bool" where
  "truthy JNull = False"
| "truthy (JBool b) = b"
| "truthy (JNum n) = (n \<noteq> 0)"
| "truthy (JStr s) = (s \<noteq> [])"
| "truthy (JArr vs) = True"
| "truthy (JObj fs) = True"

text \<open>
  \<^verbatim>\<open>JSON.parse\<close> and \<^verbatim>\<open>JSON.stringify\<close> belong to the JavaScript runtime and
  \<^verbatim>\<open>AI_CACHE_TTL\<close> to the process environment; the service takes them as given.
  \<open>AI_CACHE_TTL\<close> is what \<^verbatim>\<open>parseInt(getEnvVar('AI_CACHE_TTL', '3600'))\<close> reads:
  a whole number of seconds, or \<open>None\<close> for the \<^verbatim>\<open>NaN\<close> of a variable that does not
  start with a number.
\<close>

record runtime =
  JSON_parse :: "string \<Rightarrow> error + json"
  JSON_stringify :: "json \<Rightarrow> string"
  AI_CACHE_TTL :: "int option"

text \<open>
  \<^verbatim>\<open>new Date(t)\<close>: a time value of more than 8.64e15 milliseconds on either side of the
  epoch, like \<^verbatim>\<open>NaN\<close>, makes an Invalid Date, which is \<open>None\<close> here.
\<close>

definition valid_time :: "int \<Rightarrow> bool" where
  "valid_time t = (\<bar>t\<bar> \<le> 8640000000000000)"

definition new_Date :: "int option \<Rightarrow> int option" where
  "new_Date t = (case t of None \<Rightarrow> None | Some v \<Rightarrow> if valid_time v then Some v else None)"

text \<open>\<^verbatim>\<open>a || d\<close> on an optional string: \<^verbatim>\<open>undefined\<close> and the empty string give \<open>d\<close>.\<close>

definition or_default :: "string option \<Rightarrow> string \<Rightarrow> string" where
  "or_default a d = (case a of None \<Rightarrow> d | Some s \<Rightarrow> if s = [] then d else s)"

fun startsWith :: "string \<Rightarrow> string \<Rightarrow> bool" where
  "startsWith s [] = True"
| "startsWith [] (c # cs) = False"
| "startsWith (x # xs) (c # cs) = (x = c \<and> startsWith xs cs)"

fun includes_str :: "string \<Rightarrow> string \<Rightarrow> bool" where
  "includes_str [] t = (t = [])"
| "includes_str (x # xs) t = (startsWith (x # xs) t \<or> includes_str xs t)"

section \<open>The volatile tier: Redis\<close>

text \<open>
  The ioredis client is constructed lazily, so a refused connection still leaves a client
  object behind whose commands reject: \<open>Unreachable n\<close>, where \<open>n\<close> counts the connection
  attempts that fail while one command waits. \<open>WritesRejected\<close> is a server that answers
  reads and refuses writes (a read-only replica, or one out of memory). A stored value
  carries the instant, in milliseconds, at which it expires. \<^verbatim>\<open>SETEX\<close> refuses a
  lifetime that is not a number, is not positive, or ends beyond what a signed 64-bit
  count of milliseconds holds. \<open>redis_get\<close> and \<open>redis_setex\<close> are the answers of the
  two commands; what the client's \<^verbatim>\<open>'error'\<close> handler writes meanwhile is
  \<open>redis_on_error\<close> below.
\<close>

datatype redis_status = Ready | WritesRejected | Unreachable nat

record redis_client =
  status :: redis_status
  store :: "(string \<times> string \<times> int) list"

definition redis_get :: "int \<Rightarrow> redis_client \<Rightarrow> string \<Rightarrow> error + string option" where
  "redis_get now c k =
     (case status c of
        Unreachable n \<Rightarrow> Inl RedisError
      | _ \<Rightarrow>
          (case map_of (store c) k of
             None \<Rightarrow> Inr None
           | Some (v, expiry) \<Rightarrow> if now < expiry then Inr (Some v) else Inr None))"

definition redis_setex ::
  "int \<Rightarrow> redis_client \<Rightarrow> string \<Rightarrow> int option \<Rightarrow> string \<Rightarrow> error + redis_client" where
  "redis_setex now c k seconds v =
     (case seconds of
        None \<Rightarrow> Inl RedisError
      | Some s \<Rightarrow>
          if status c = Ready \<and> 0 < s \<and> now + s * 1000 \<le> 9223372036854775807
          then Inr (c\<lparr>store := (k, v, now + s * 1000) # filter (\<lambda>p. fst p \<noteq> k) (store c)\<rparr>)
          else Inl RedisError)"

section \<open>The durable tier: the database behind Prisma\<close>

text \<open>
  The rows follow \<^verbatim>\<open>AICacheModel\<close> and \<^verbatim>\<open>DiaryEntryModel\<close> of types/models.ts, with
  the fields the cache and the enrichment read or write; \<open>key\<close> identifies a cache row.
  \<open>ai_cache = None\<close> is a database whose cache table has not been created yet;
  \<open>connected = False\<close> is a database that rejects every query. Times are
  milliseconds since the epoch, as \<^verbatim>\<open>Date.now()\<close> counts them.
\<close>

record ai_cache_row =
  row_key :: string
  row_result :: json
  row_type :: string
  row_expiresAt :: int

record diary_entry =
  entry_id :: string
  entry_content :: string
  aiSentiment :: "json option"
  aiTags :: "json option"
  aiSummary :: "json option"

record database =
  connected :: bool
  ai_cache :: "ai_cache_row list option"
  diary_entries :: "diary_entry list"

definition connection_lost :: error where
  "connection_lost = PrismaError ''Cannot reach database server''"

definition missing_table :: error where
  "missing_table = PrismaError ''Raw query failed. Code: 42P01. Message: relation ai_cache does not exist''"

definition invalid_date :: error where
  "invalid_date = PrismaError ''Invalid value for argument expiresAt: Provided Date object is invalid.''"

definition record_not_found :: error where
  "record_not_found = PrismaError ''Record to update not found.''"

text \<open>\<^verbatim>\<open>aICache.findFirst({ where: { key, type, expiresAt: { gt: new Date() } } })\<close>\<close>

definition aICache_findFirst :: "int \<Rightarrow> database \<Rightarrow> string \<Rightarrow> string \<Rightarrow> error + ai_cache_row option" where
  "aICache_findFirst now d k t =
     (if \<not> connected d then Inl connection_lost
      else case ai_cache d of
             None \<Rightarrow> Inl missing_table
           | Some rows \<Rightarrow>
               Inr (find (\<lambda>r. row_key r = k \<and> row_type r = t \<and> now < row_expiresAt r) rows))"

text \<open>
  \<^verbatim>\<open>aICache.upsert({ where: { key }, update: {...}, create: {...} })\<close>: the row with the
  key takes the new result, type and expiry; without one a row is created. Prisma checks
  its arguments before it sends the query and rejects an Invalid Date.
\<close>

fun upsert_row :: "ai_cache_row \<Rightarrow> ai_cache_row list \<Rightarrow> ai_cache_row list" where
  "upsert_row n [] = [n]"
| "upsert_row n (r # rs) = (if row_key r = row_key n then n # rs else r # upsert_row n rs)"

definition aICache_upsert ::
  "database \<Rightarrow> string \<Rightarrow> json \<Rightarrow> string \<Rightarrow> int option \<Rightarrow> error + database" where
  "aICache_upsert d key result type expiresAt =
     (case expiresAt of
        None \<Rightarrow> Inl invalid_date
      | Some t \<Rightarrow>
          if \<not> connected d then Inl connection_lost
          else (case ai_cache d of
                  None \<Rightarrow> Inl missing_table
                | Some rows \<Rightarrow>
                    Inr (d\<lparr>ai_cache := Some (upsert_row
                           \<lparr>row_key = key, row_result = result, row_type = type,
                            row_expiresAt = t\<rparr> rows)\<rparr>)))"

text \<open>\<^verbatim>\<open>aICache.deleteMany({ where: { expiresAt: { lt: new Date() } } })\<close>, with its count.\<close>

definition aICache_deleteMany :: "int \<Rightarrow> database \<Rightarrow> error + nat \<times> database" where
  "aICache_deleteMany now d =
     (if \<not> connected d then Inl connection_lost
      else case ai_cache d of
             None \<Rightarrow> Inl missing_table
           | Some rows \<Rightarrow>
               Inr (length (filter (\<lambda>r. row_expiresAt r < now) rows),
                    d\<lparr>ai_cache := Some (filter (\<lambda>r. \<not> row_expiresAt r < now) rows)\<rparr>))"

text \<open>\<^verbatim>\<open>$queryRaw`SELECT 1 FROM ai_cache LIMIT 1`\<close>\<close>

definition queryRaw_ai_cache :: "database \<Rightarrow> error + unit" where
  "queryRaw_ai_cache d =
     (if \<not> connected d then Inl connection_lost
      else case ai_cache d of None \<Rightarrow> Inl missing_table | Some rows \<Rightarrow> Inr ())"

text \<open>
  \<^verbatim>\<open>diaryEntry.update({ where: { id }, data: { aiSentiment, aiTags, aiSummary } })\<close>:
  one statement that sets the three fields of the entry with that id, and rejects when
  there is none.
\<close>

fun update_entry :: "string \<Rightarrow> (diary_entry \<Rightarrow> diary_entry) \<Rightarrow> diary_entry list \<Rightarrow> diary_entry list option" where
  "update_entry i f [] = None"
| "update_entry i f (e # es) =
     (if entry_id e = i then Some (f e # es)
      else case update_entry i f es of None \<Rightarrow> None | Some es' \<Rightarrow> Some (e # es'))"

definition set_analysis :: "json \<Rightarrow> json \<Rightarrow> json \<Rightarrow> diary_entry \<Rightarrow> diary_entry" where
  "set_analysis sentiment tags summary e =
     e\<lparr>aiSentiment := Some sentiment, aiTags := Some tags, aiSummary := Some summary\<rparr>"

definition diaryEntry_update :: "database \<Rightarrow> string \<Rightarrow> json \<Rightarrow> json \<Rightarrow> json \<Rightarrow> error + database" where
  "diaryEntry_update d i sentiment tags summary =
     (if \<not> connected d then Inl connection_lost
      else case update_entry i (set_analysis sentiment tags summary) (diary_entries d) of
             None \<Rightarrow> Inl record_not_found
           | Some es \<Rightarrow> Inr (d\<lparr>diary_entries := es\<rparr>))"

section \<open>The state the services share\<close>

text \<open>
  \<open>openai\<close> and \<open>redis\<close> are the two nullable fields of \<^verbatim>\<open>AIService\<close>. The
  provider is outside the program: a client is a function from the prompt and the content
  to what \<^verbatim>\<open>chat.completions.create\<close> settles with, either a rejection or
  \<^verbatim>\<open>response.choices[0]?.message?.content\<close>. \<open>provider_calls\<close> records every request
  sent to it and \<open>console\<close> every line written to the console, oldest first.
\<close>

datatype prompt = SentimentPrompt | TagsPrompt | SummaryPrompt

type_synonym openai_client = "prompt \<Rightarrow> string \<Rightarrow> error + string option"

record world =
  openai :: "openai_client option"
  redis :: "redis_client option"
  db :: database
  console :: "string list"
  provider_calls :: "(prompt \<times> string) list"

definition console_write :: "string \<Rightarrow> world \<Rightarrow> world" where
  "console_write line w = w\<lparr>console := console w @ [line]\<rparr>"

text \<open>
  The constructor registers \<^verbatim>\<open>this.redis.on('error', ...)\<close>, which writes a warning for
  every connection attempt that fails. While a command waits on a client that cannot
  reach Redis, these warnings reach the console.
\<close>

definition redis_on_error :: "world \<Rightarrow> world" where
  "redis_on_error w =
     (case redis w of
        None \<Rightarrow> w
      | Some c \<Rightarrow>
          (case status c of
             Unreachable n \<Rightarrow>
               w\<lparr>console := console w
                    @ replicate n ''Redis connection failed, caching disabled:''\<rparr>
           | _ \<Rightarrow> w))"

definition chat_completions_create ::
  "openai_client \<Rightarrow> prompt \<Rightarrow> string \<Rightarrow> world \<Rightarrow> (error + string option) \<times> world" where
  "chat_completions_create client p content w =
     (client p content, w\<lparr>provider_calls := provider_calls w @ [(p, content)]\<rparr>)"

section \<open>services/ai.ts: the two-tier cache\<close>

text \<open>
  The first block of \<^verbatim>\<open>getCachedResult\<close>: with a client, \<^verbatim>\<open>redis.get(key)\<close> and, on a
  truthy answer, \<^verbatim>\<open>return JSON.parse(redisResult)\<close>. \<open>Inr (Some v)\<close> is that return,
  \<open>Inr None\<close> is falling through to the database.
\<close>

definition redis_tier :: "runtime \<Rightarrow> int \<Rightarrow> world \<Rightarrow> string \<Rightarrow> error + json option" where
  "redis_tier rt now w key =
     (case redis w of
        None \<Rightarrow> Inr None
      | Some c \<Rightarrow>
          (case redis_get now c key of
             Inl e \<Rightarrow> Inl e
           | Inr None \<Rightarrow> Inr None
           | Inr (Some redisResult) \<Rightarrow>
               if redisResult = [] then Inr None
               else (case JSON_parse rt redisResult of Inl e \<Rightarrow> Inl e | Inr v \<Rightarrow> Inr (Some v))))"

text \<open>
  The second block: \<^verbatim>\<open>findFirst\<close>, and on a row
  \<^verbatim>\<open>redis.setex(key, 3600, JSON.stringify(dbResult.result))\<close> with a client, then
  \<^verbatim>\<open>return dbResult.result\<close>; without a row \<^verbatim>\<open>return null\<close>.
\<close>

definition database_tier :: "runtime \<Rightarrow> int \<Rightarrow> world \<Rightarrow> string \<Rightarrow> string \<Rightarrow> (error + json) \<times> world" where
  "database_tier rt now w key type =
     (case aICache_findFirst now (db w) key type of
        Inl e \<Rightarrow> (Inl e, w)
      | Inr None \<Rightarrow> (Inr JNull, w)
      | Inr (Some dbResult) \<Rightarrow>
          (case redis w of
             None \<Rightarrow> (Inr (row_result dbResult), w)
           | Some c \<Rightarrow>
               (case redis_setex now c key (Some 3600) (JSON_stringify rt (row_result dbResult)) of
                  Inl e \<Rightarrow> (Inl e, redis_on_error w)
                | Inr c' \<Rightarrow> (Inr (row_result dbResult), w\<lparr>redis := Some c'\<rparr>))))"

definition getCachedResult_try :: "runtime \<Rightarrow> int \<Rightarrow> world \<Rightarrow> string \<Rightarrow> string \<Rightarrow> (error + json) \<times> world" where
  "getCachedResult_try rt now w key type =
     (case redis_tier rt now w key of
        Inl e \<Rightarrow> (Inl e, redis_on_error w)
      | Inr (Some v) \<Rightarrow> (Inr v, w)
      | Inr None \<Rightarrow> database_tier rt now w key type)"

text \<open>The \<^verbatim>\<open>catch\<close> of \<^verbatim>\<open>getCachedResult\<close>: log and \<^verbatim>\<open>return null\<close>.\<close>

definition getCachedResult :: "runtime \<Rightarrow> int \<Rightarrow> world \<Rightarrow> string \<Rightarrow> string \<Rightarrow> (error + json) \<times> world" where
  "getCachedResult rt now w key type =
     (case getCachedResult_try rt now w key type of
        (Inl e, w') \<Rightarrow> (Inr JNull, console_write ''Cache retrieval failed:'' w')
      | (Inr v, w') \<Rightarrow> (Inr v, w'))"

text \<open>
  \<^verbatim>\<open>cacheResult\<close>: \<^verbatim>\<open>expiresAt = new Date(Date.now() + ttl * 1000)\<close>, which is an
  Invalid Date for a \<^verbatim>\<open>NaN\<close> lifetime and for an instant out of the range of dates;
  then, inside one \<^verbatim>\<open>try\<close>, the write to Redis when there is a client and the upsert
  of the row.
\<close>

definition cacheResult_try :: "runtime \<Rightarrow> int \<Rightarrow> world \<Rightarrow> string \<Rightarrow> string \<Rightarrow> json \<Rightarrow> (error + unit) \<times> world" where
  "cacheResult_try rt now w key type result =
     (let ttl = AI_CACHE_TTL rt;
          expiresAt = new_Date (map_option (\<lambda>t. now + t * 1000) ttl)
      in case (case redis w of
                 None \<Rightarrow> Inr w
               | Some c \<Rightarrow>
                   (case redis_setex now c key ttl (JSON_stringify rt result) of
                      Inl e \<Rightarrow> Inl e
                    | Inr c' \<Rightarrow> Inr (w\<lparr>redis := Some c'\<rparr>))) of
           Inl e \<Rightarrow> (Inl e, redis_on_error w)
         | Inr w1 \<Rightarrow>
             (case aICache_upsert (db w1) key result type expiresAt of
                Inl e \<Rightarrow> (Inl e, w1)
              | Inr d \<Rightarrow> (Inr (), w1\<lparr>db := d\<rparr>)))"

text \<open>Its \<^verbatim>\<open>catch\<close> logs and does not throw.\<close>

definition cacheResult :: "runtime \<Rightarrow> int \<Rightarrow> world \<Rightarrow> string \<Rightarrow> string \<Rightarrow> json \<Rightarrow> (error + unit) \<times> world" where
  "cacheResult rt now w key type result =
     (case cacheResult_try rt now w key type result of
        (Inl e, w') \<Rightarrow> (Inr (), console_write ''Cache storage failed:'' w')
      | (Inr u, w') \<Rightarrow> (Inr u, w'))"

section \<open>services/ai.ts: the three analyses\<close>

text \<open>
  \<^verbatim>\<open>analyzeSentiment\<close> and \<^verbatim>\<open>generateTags\<close> pass \<^verbatim>\<open>cacheKey\<close> to
  \<^verbatim>\<open>cacheResult\<close>, and neither they nor the module declare that name: evaluating the
  argument throws a \<^verbatim>\<open>ReferenceError\<close> before the call is made.
\<close>

definition cacheKey_unbound :: "error + string" where
  "cacheKey_unbound = Inl (ReferenceError ''cacheKey is not defined'')"

definition neutral_sentiment :: json where
  "neutral_sentiment =
     JObj [(''score'', JNum 0), (''label'', JStr ''neutral''),
           (''confidence'', JNum 0), (''emotions'', JArr [])]"

definition analyzeSentiment_try ::
  "runtime \<Rightarrow> int \<Rightarrow> world \<Rightarrow> openai_client \<Rightarrow> string \<Rightarrow> (error + json) \<times> world" where
  "analyzeSentiment_try rt now w client content =
     (case chat_completions_create client SentimentPrompt content w of
        (Inl e, w1) \<Rightarrow> (Inl e, w1)
      | (Inr message_content, w1) \<Rightarrow>
          (case JSON_parse rt (or_default message_content ''{}'') of
             Inl e \<Rightarrow> (Inl e, w1)
           | Inr result \<Rightarrow>
               (case cacheKey_unbound of
                  Inl e \<Rightarrow> (Inl e, w1)
                | Inr cacheKey \<Rightarrow>
                    (case cacheResult rt now w1 cacheKey ''sentiment'' result of
                       (Inl e, w2) \<Rightarrow> (Inl e, w2)
                     | (Inr u, w2) \<Rightarrow> (Inr result, w2)))))"

definition analyzeSentiment :: "runtime \<Rightarrow> int \<Rightarrow> world \<Rightarrow> string \<Rightarrow> (error + json) \<times> world" where
  "analyzeSentiment rt now w content =
     (case openai w of
        None \<Rightarrow>
          (Inr neutral_sentiment,
           console_write ''OpenAI not available, returning neutral sentiment'' w)
      | Some client \<Rightarrow>
          (case analyzeSentiment_try rt now w client content of
             (Inl e, w') \<Rightarrow>
               (Inl (AppError ''Failed to analyze sentiment'' 500),
                console_write ''Sentiment analysis failed:'' w')
           | (Inr result, w') \<Rightarrow> (Inr result, w')))"

definition generateTags_try ::
  "runtime \<Rightarrow> int \<Rightarrow> world \<Rightarrow> openai_client \<Rightarrow> string \<Rightarrow> (error + json) \<times> world" where
  "generateTags_try rt now w client content =
     (case chat_completions_create client TagsPrompt content w of
        (Inl e, w1) \<Rightarrow> (Inl e, w1)
      | (Inr message_content, w1) \<Rightarrow>
          (case JSON_parse rt (or_default message_content ''[]'') of
             Inl e \<Rightarrow> (Inl e, w1)
           | Inr result \<Rightarrow>
               (case cacheKey_unbound of
                  Inl e \<Rightarrow> (Inl e, w1)
                | Inr cacheKey \<Rightarrow>
                    (case cacheResult rt now w1 cacheKey ''tags'' result of
                       (Inl e, w2) \<Rightarrow> (Inl e, w2)
                     | (Inr u, w2) \<Rightarrow> (Inr result, w2)))))"

definition generateTags :: "runtime \<Rightarrow> int \<Rightarrow> world \<Rightarrow> string \<Rightarrow> (error + json) \<times> world" where
  "generateTags rt now w content =
     (case openai w of
        None \<Rightarrow> (Inr (JArr []), console_write ''OpenAI not available, returning empty tags'' w)
      | Some client \<Rightarrow>
          (case generateTags_try rt now w client content of
             (Inl e, w') \<Rightarrow>
               (Inl (AppError ''Failed to generate tags'' 500),
                console_write ''Tag generation failed:'' w')
           | (Inr result, w') \<Rightarrow> (Inr result, w')))"

text \<open>
  \<^verbatim>\<open>generateSummary\<close> has no guard on \<^verbatim>\<open>this.openai\<close>: it looks the key up in the
  cache, returns a truthy hit, and otherwise reads \<^verbatim>\<open>this.openai.chat\<close> inside its
  \<^verbatim>\<open>try\<close>, which throws a \<^verbatim>\<open>TypeError\<close> when the field is null.
\<close>

definition generateSummary_try ::
  "runtime \<Rightarrow> int \<Rightarrow> world \<Rightarrow> string \<Rightarrow> string \<Rightarrow> (error + json) \<times> world" where
  "generateSummary_try rt now w cacheKey content =
     (case openai w of
        None \<Rightarrow> (Inl (TypeError ''Cannot read properties of null (reading chat)''), w)
      | Some client \<Rightarrow>
          (case chat_completions_create client SummaryPrompt content w of
             (Inl e, w1) \<Rightarrow> (Inl e, w1)
           | (Inr message_content, w1) \<Rightarrow>
               (let result = JStr (or_default message_content '''')
                in case cacheResult rt now w1 cacheKey ''summary'' result of
                     (Inl e, w2) \<Rightarrow> (Inl e, w2)
                   | (Inr u, w2) \<Rightarrow> (Inr result, w2))))"

definition generateSummary :: "runtime \<Rightarrow> int \<Rightarrow> world \<Rightarrow> string \<Rightarrow> (error + json) \<times> world" where
  "generateSummary rt now w content =
     (let cacheKey = generateCacheKey content ''summary''
      in case getCachedResult rt now w cacheKey ''summary'' of
           (Inl e, w0) \<Rightarrow> (Inl e, w0)
         | (Inr cached, w0) \<Rightarrow>
             if truthy cached then (Inr cached, w0)
             else (case generateSummary_try rt now w0 cacheKey content of
                     (Inl e, w') \<Rightarrow>
                       (Inl (AppError ''Failed to generate summary'' 500),
                        console_write ''Summary generation failed:'' w')
                   | (Inr result, w') \<Rightarrow> (Inr result, w')))"

section \<open>routes/entries.ts: the enrichment of an entry\<close>

text \<open>
  \<^verbatim>\<open>Promise.all\<close> fulfils with the three values when all three promises fulfil and
  rejects as soon as one rejects. All three calls run to their end either way. Only
  \<^verbatim>\<open>generateSummary\<close> touches the cache, so the calls are run one after the other in the
  order of the array.
\<close>

definition promise_all3 :: "error + 'a \<Rightarrow> error + 'b \<Rightarrow> error + 'c \<Rightarrow> error + 'a \<times> 'b \<times> 'c" where
  "promise_all3 a b c =
     (case a of
        Inl e \<Rightarrow> Inl e
      | Inr x \<Rightarrow>
          (case b of
             Inl e \<Rightarrow> Inl e
           | Inr y \<Rightarrow> (case c of Inl e \<Rightarrow> Inl e | Inr z \<Rightarrow> Inr (x, y, z))))"

definition processAIAnalysis_try ::
  "runtime \<Rightarrow> int \<Rightarrow> world \<Rightarrow> string \<Rightarrow> string \<Rightarrow> (error + unit) \<times> world" where
  "processAIAnalysis_try rt now w entryId content =
     (case analyzeSentiment rt now w content of
        (sentiment, w1) \<Rightarrow>
          (case generateTags rt now w1 content of
             (tags, w2) \<Rightarrow>
               (case generateSummary rt now w2 content of
                  (summary, w3) \<Rightarrow>
                    (case promise_all3 sentiment tags summary of
                       Inl e \<Rightarrow> (Inl e, w3)
                     | Inr (s, t, m) \<Rightarrow>
                         (case diaryEntry_update (db w3) entryId s t m of
                            Inl e \<Rightarrow> (Inl e, w3)
                          | Inr d \<Rightarrow>
                              (Inr (),
                               console_write ''AI analysis completed for entry:'' (w3\<lparr>db := d\<rparr>)))))))"

definition processAIAnalysis ::
  "runtime \<Rightarrow> int \<Rightarrow> world \<Rightarrow> string \<Rightarrow> string \<Rightarrow> (error + unit) \<times> world" where
  "processAIAnalysis rt now w entryId content =
     (case processAIAnalysis_try rt now w entryId content of
        (Inl e, w') \<Rightarrow> (Inr (), console_write ''AI analysis failed for entry:'' w')
      | (Inr u, w') \<Rightarrow> (Inr u, w'))"

section \<open>services/database.ts: the sweep\<close>

definition cleanupExpiredCache_try :: "int \<Rightarrow> world \<Rightarrow> (error + unit) \<times> world" where
  "cleanupExpiredCache_try now w =
     (case queryRaw_ai_cache (db w) of
        Inl e \<Rightarrow> (Inl e, w)
      | Inr u \<Rightarrow>
          (case aICache_deleteMany now (db w) of
             Inl e \<Rightarrow> (Inl e, w)
           | Inr (count, d) \<Rightarrow>
               (Inr (),
                if 0 < count then console_write ''Cleaned up expired cache entries'' (w\<lparr>db := d\<rparr>)
                else w\<lparr>db := d\<rparr>)))"

definition cleanupExpiredCache :: "int \<Rightarrow> world \<Rightarrow> (error + unit) \<times> world" where
  "cleanupExpiredCache now w =
     (case cleanupExpiredCache_try now w of
        (Inl e, w') \<Rightarrow>
          (Inr (),
           if includes_str (error_message e) ''does not exist''
           then console_write ''AI cache table not yet created, skipping cleanup'' w'
           else console_write ''Cache cleanup failed:'' w')
      | (Inr u, w') \<Rightarrow> (Inr u, w'))"

text \<open>What the three analyses of one enrichment pass settle with, in the order of the array.\<close>

definition settled_analyses ::
  "runtime \<Rightarrow> int \<Rightarrow> world \<Rightarrow> string \<Rightarrow> (error + json) \<times> (error + json) \<times> (error + json)" where
  "settled_analyses rt now w content =
     (case analyzeSentiment rt now w content of
        (sentiment, w1) \<Rightarrow>
          (case generateTags rt now w1 content of
             (tags, w2) \<Rightarrow>
               (case generateSummary rt now w2 content of
                  (summary, w3) \<Rightarrow> (sentiment, tags, summary))))"

text \<open>Two worlds with the same provider, the same diary entries and the same connection.\<close>

definition same_entries :: "world \<Rightarrow> world \<Rightarrow> bool" where
  "same_entries w w' = (connected (db w') = connected (db w)
     \<and> diary_entries (db w') = diary_entries (db w) \<and> openai w' = openai w)"

section \<open>A small runtime and sample states\<close>

text \<open>
  A runtime whose \<^verbatim>\<open>JSON.parse\<close> and \<^verbatim>\<open>JSON.stringify\<close> know a handful of texts,
  enough to run the services on concrete inputs.
\<close>

definition sample_texts :: "(string \<times> json) list" where
  \<open>sample_texts =
     [(''{}'', JObj []),
      (''[]'', JArr []),
      (''["park","happy"]'', JArr [JStr ''park'', JStr ''happy'']),
      (''{"score":0.5,"label":"positive"}'',
         JObj [(''score'', JNum (1 / 2)), (''label'', JStr ''positive'')]),
      (''"A walk in the park."'', JStr ''A walk in the park.'')]\<close>

definition sample_parse :: "string \<Rightarrow> error + json" where
  "sample_parse s = (case map_of sample_texts s of None \<Rightarrow> Inl SyntaxError | Some v \<Rightarrow> Inr v)"

definition sample_stringify :: "json \<Rightarrow> string" where
  "sample_stringify v =
     (case find (\<lambda>p. snd p = v) sample_texts of None \<Rightarrow> ''null'' | Some p \<Rightarrow> fst p)"

definition sample_runtime :: runtime where
  "sample_runtime =
     \<lparr>JSON_parse = sample_parse, JSON_stringify = sample_stringify,
      AI_CACHE_TTL = Some 3600\<rparr>"

text \<open>
  A provider that answers every prompt with a well-formed text, one diary entry that has
  not been enriched yet, and a world around them: the provider and the Redis client may
  each be missing, and the cache table may be missing or hold the given rows.
\<close>

definition sample_client :: openai_client where
  \<open>sample_client p content =
     (case p of
        SentimentPrompt \<Rightarrow> Inr (Some ''{"score":0.5,"label":"positive"}'')
      | TagsPrompt \<Rightarrow> Inr (Some ''["park","happy"]'')
      | SummaryPrompt \<Rightarrow> Inr (Some ''A walk in the park.''))\<close>

definition sample_entry :: diary_entry where
  "sample_entry =
     \<lparr>entry_id = ''e1'', entry_content = ''Had a great day at the park'',
      aiSentiment = None, aiTags = None, aiSummary = None\<rparr>"

definition sample_world ::
  "openai_client option \<Rightarrow> redis_client option \<Rightarrow> ai_cache_row list option \<Rightarrow> world" where
  "sample_world ai r table =
     \<lparr>openai = ai, redis = r,
      db = \<lparr>connected = True, ai_cache = table, diary_entries = [sample_entry]\<rparr>,
      console = [], provider_calls = []\<rparr>"

text \<open>The definitions that running a service on a sample state unfolds.\<close>

lemmas eval_defs = sample_world_def sample_runtime_def sample_client_def sample_entry_def
  sample_parse_def sample_stringify_def sample_texts_def
  analyzeSentiment_def analyzeSentiment_try_def generateTags_def generateTags_try_def
  generateSummary_def generateSummary_try_def getCachedResult_def getCachedResult_try_def
  redis_tier_def database_tier_def cacheResult_def cacheResult_try_def
  redis_get_def redis_setex_def aICache_findFirst_def aICache_upsert_def aICache_deleteMany_def
  queryRaw_ai_cache_def diaryEntry_update_def set_analysis_def
  processAIAnalysis_def processAIAnalysis_try_def promise_all3_def settled_analyses_def
  cleanupExpiredCache_def cleanupExpiredCache_try_def
  chat_completions_create_def console_write_def cacheKey_unbound_def or_default_def
  neutral_sentiment_def redis_on_error_def new_Date_def valid_time_def Let_def

section \<open>The cache key\<close>

lemma length_sha256: "length (sha256 m) = 32"
  by (simp add: sha256_def Let_def word_bytes_def)

lemma length_hex_encode: "length (hex_encode bs) = 2 * length bs"
  by (induction bs) (simp_all add: hex_encode_def hex_byte_def)

text \<open>
  C8. For every content and kind, the key that \<^verbatim>\<open>generateCacheKey\<close> builds through the
  hash object is the hexadecimal SHA-256 digest of the kind, a colon and the content, and
  it is 64 characters long whatever the input. Being a function of the pair, it gives
  equal pairs equal keys.
\<close>

theorem generateCacheKey_sha256_hex:
  "generateCacheKey content type = spec_cache_key type content
   \<and> length (generateCacheKey content type) = 64"
  by (simp add: generateCacheKey_def spec_cache_key_def digest_hex_def update_hash_def
      createHash_sha256_def length_hex_encode length_sha256)

section \<open>The sweep\<close>

lemma sweep_never_raises: "fst (cleanupExpiredCache now w) = Inr ()"
  by (simp add: cleanupExpiredCache_def split: prod.splits sum.splits)

lemma sweep_table_absent:
  assumes "ai_cache (db w) = None"
  shows "snd (cleanupExpiredCache now w)\<lparr>console := console w\<rparr> = w"
  using assms
  by (auto simp: cleanupExpiredCache_def cleanupExpiredCache_try_def queryRaw_ai_cache_def
      console_write_def split: sum.splits prod.splits if_splits)

lemma keep_all:
  "list_all (\<lambda>r. now \<le> row_expiresAt r) rows
   \<Longrightarrow> filter (\<lambda>r. \<not> row_expiresAt r < now) rows = rows
       \<and> filter (\<lambda>r. row_expiresAt r < now) rows = []"
  by (induction rows) auto

lemma put_back_rows: "ai_cache d = Some rows \<Longrightarrow> d\<lparr>ai_cache := Some rows\<rparr> = d"
  by (cases d) simp

lemma put_back_db: "db w = d \<Longrightarrow> w\<lparr>db := d\<rparr> = w"
  by (cases w) simp

lemma sweep_nothing_expired:
  assumes "ai_cache (db w) = Some rows" and "list_all (\<lambda>r. now \<le> row_expiresAt r) rows"
    and "connected (db w)"
  shows "cleanupExpiredCache now w = (Inr (), w)"
  using assms keep_all [OF assms(2)] put_back_rows [OF assms(1)]
  by (simp add: cleanupExpiredCache_def cleanupExpiredCache_try_def queryRaw_ai_cache_def
      aICache_deleteMany_def put_back_db)

text \<open>
  C10. \<^verbatim>\<open>cleanupExpiredCache\<close> never raises. When the cache table does not exist it
  changes nothing but the console (it is a no-op on both stores), and on a reachable store
  whose rows have all not expired yet it deletes nothing, logs nothing and leaves the
  world as it was.
\<close>

theorem cleanupExpiredCache_total:
  "fst (cleanupExpiredCache now w) = Inr ()
   \<and> (ai_cache (db w) = None \<longrightarrow> snd (cleanupExpiredCache now w)\<lparr>console := console w\<rparr> = w)
   \<and> (connected (db w) \<and> ai_cache (db w) = Some rows
        \<and> list_all (\<lambda>r. now \<le> row_expiresAt r) rows
       \<longrightarrow> cleanupExpiredCache now w = (Inr (), w))"
  using sweep_never_raises sweep_table_absent sweep_nothing_expired by blast

theorem cleanupExpiredCache_total_witness:
  "ai_cache (db (sample_world None None None)) = None
   \<and> cleanupExpiredCache 1000 (sample_world None None None)
       = (Inr (), (sample_world None None None)
                    \<lparr>console := [''AI cache table not yet created, skipping cleanup'']\<rparr>)
   \<and> connected (db (sample_world None None (Some [\<lparr>row_key = ''k'', row_result = JArr [],
          row_type = ''tags'', row_expiresAt = 5000\<rparr>])))
   \<and> list_all (\<lambda>r. 1000 \<le> row_expiresAt r)
        [\<lparr>row_key = ''k'', row_result = JArr [], row_type = ''tags'', row_expiresAt = 5000\<rparr>]
   \<and> cleanupExpiredCache 1000 (sample_world None None (Some [\<lparr>row_key = ''k'', row_result = JArr [],
          row_type = ''tags'', row_expiresAt = 5000\<rparr>]))
       = (Inr (), sample_world None None (Some [\<lparr>row_key = ''k'', row_result = JArr [],
          row_type = ''tags'', row_expiresAt = 5000\<rparr>]))"
  using cleanupExpiredCache_total [of 1000 "sample_world None None None" "[]"]
    cleanupExpiredCache_total [of 1000 "sample_world None None (Some [\<lparr>row_key = ''k'',
          row_result = JArr [], row_type = ''tags'', row_expiresAt = 5000\<rparr>])"
       "[\<lparr>row_key = ''k'', row_result = JArr [], row_type = ''tags'', row_expiresAt = 5000\<rparr>]"]
  by (simp add: sample_world_def cleanupExpiredCache_def cleanupExpiredCache_try_def
      queryRaw_ai_cache_def missing_table_def console_write_def)

section \<open>The analyses with a provider\<close>

text \<open>
  C4. With a provider configured, \<^verbatim>\<open>analyzeSentiment\<close> and \<^verbatim>\<open>generateTags\<close> return
  no result for any content, whatever the provider answers: a rejected request, a text
  that does not parse and a well-formed answer all end in the \<^verbatim>\<open>catch\<close>, the last
  because \<^verbatim>\<open>cacheKey\<close> is not defined, and the caller gets an \<^verbatim>\<open>AppError\<close> with
  status 500.
\<close>

theorem provider_configured_never_returns:
  assumes "openai w = Some client"
  shows "fst (analyzeSentiment rt now w content) = Inl (AppError ''Failed to analyze sentiment'' 500)
       \<and> fst (generateTags rt now w content) = Inl (AppError ''Failed to generate tags'' 500)"
  using assms
  by (simp add: analyzeSentiment_def analyzeSentiment_try_def generateTags_def generateTags_try_def
      cacheKey_unbound_def chat_completions_create_def split: sum.splits prod.splits)

theorem provider_configured_never_returns_witness:
  "openai (sample_world (Some sample_client) None (Some [])) = Some sample_client
   \<and> JSON_parse sample_runtime
         (or_default (projr (sample_client SentimentPrompt ''Had a great day at the park'')) ''{}'')
       = Inr (JObj [(''score'', JNum (1 / 2)), (''label'', JStr ''positive'')])
   \<and> fst (analyzeSentiment sample_runtime 1000 (sample_world (Some sample_client) None (Some []))
             ''Had a great day at the park'')
       = Inl (AppError ''Failed to analyze sentiment'' 500)
   \<and> fst (generateTags sample_runtime 1000 (sample_world (Some sample_client) None (Some []))
             ''Had a great day at the park'')
       = Inl (AppError ''Failed to generate tags'' 500)"
  using provider_configured_never_returns
          [of "sample_world (Some sample_client) None (Some [])" sample_client sample_runtime 1000
              "''Had a great day at the park''"]
  by (simp add: sample_world_def sample_client_def sample_runtime_def sample_parse_def
      sample_texts_def or_default_def)

section \<open>The enrichment pass\<close>

lemma same_entries_refl [simp]: "same_entries w w"
  by (simp add: same_entries_def)

lemma same_entries_console [simp]: "same_entries w (console_write l w') = same_entries w w'"
  by (simp add: same_entries_def console_write_def)

lemma redis_on_error_fields [simp]:
  "db (redis_on_error w) = db w"
  "redis (redis_on_error w) = redis w"
  "openai (redis_on_error w) = openai w"
  "provider_calls (redis_on_error w) = provider_calls w"
  by (simp_all add: redis_on_error_def split: option.splits redis_status.splits)

lemma same_entries_on_error [simp]: "same_entries w (redis_on_error w') = same_entries w w'"
  by (simp add: same_entries_def)

lemma getCachedResult_shape:
  "\<exists>v w'. getCachedResult rt now w key type = (Inr v, w') \<and> db w' = db w \<and> openai w' = openai w
      \<and> provider_calls w' = provider_calls w"
  by (auto simp: getCachedResult_def getCachedResult_try_def database_tier_def console_write_def
      split: sum.splits option.splits prod.splits)

lemma cacheResult_shape:
  "\<exists>w'. cacheResult rt now w key type result = (Inr (), w') \<and> same_entries w w'"
  by (auto simp: cacheResult_def cacheResult_try_def aICache_upsert_def same_entries_def Let_def
      console_write_def split: sum.splits option.splits prod.splits if_splits)

lemma analyzeSentiment_db: "db (snd (analyzeSentiment rt now w content)) = db w
    \<and> redis (snd (analyzeSentiment rt now w content)) = redis w
    \<and> openai (snd (analyzeSentiment rt now w content)) = openai w"
  by (auto simp: analyzeSentiment_def analyzeSentiment_try_def cacheKey_unbound_def
      chat_completions_create_def console_write_def split: sum.splits option.splits prod.splits)

lemma generateTags_db: "db (snd (generateTags rt now w content)) = db w
    \<and> redis (snd (generateTags rt now w content)) = redis w
    \<and> openai (snd (generateTags rt now w content)) = openai w"
  by (auto simp: generateTags_def generateTags_try_def cacheKey_unbound_def
      chat_completions_create_def console_write_def split: sum.splits option.splits prod.splits)

lemma generateSummary_try_entries:
  "same_entries w (snd (generateSummary_try rt now w key content))"
proof (cases "openai w")
  case None
  then show ?thesis by (simp add: generateSummary_try_def)
next
  case (Some client)
  obtain r w1 where c: "chat_completions_create client SummaryPrompt content w = (r, w1)"
    by (cases "chat_completions_create client SummaryPrompt content w")
  then have s1: "same_entries w w1"
    by (auto simp: chat_completions_create_def same_entries_def)
  show ?thesis
  proof (cases r)
    case (Inl e)
    with Some c s1 show ?thesis by (simp add: generateSummary_try_def)
  next
    case (Inr mc)
    obtain w2 where p: "cacheResult rt now w1 key ''summary'' (JStr (or_default mc '''')) = (Inr (), w2)"
      and s2: "same_entries w1 w2"
      using cacheResult_shape by blast
    from s1 s2 have "same_entries w w2" by (simp add: same_entries_def)
    with Some c Inr p show ?thesis by (simp add: generateSummary_try_def Let_def)
  qed
qed

lemma generateSummary_entries:
  "same_entries w (snd (generateSummary rt now w content))"
proof -
  obtain v w0 where g: "getCachedResult rt now w (generateCacheKey content ''summary'') ''summary'' = (Inr v, w0)"
    and d: "db w0 = db w" "openai w0 = openai w"
    using getCachedResult_shape by blast
  have s0: "same_entries w w0" using d by (simp add: same_entries_def)
  have "same_entries w0 (snd (generateSummary_try rt now w0 (generateCacheKey content ''summary'') content))"
    by (rule generateSummary_try_entries)
  with s0 have "same_entries w (snd (generateSummary_try rt now w0 (generateCacheKey content ''summary'') content))"
    by (simp add: same_entries_def)
  with g s0 show ?thesis
    by (auto simp: generateSummary_def Let_def split: prod.splits sum.splits)
qed

lemma processAIAnalysis_never_raises: "fst (processAIAnalysis rt now w entryId content) = Inr ()"
  by (simp add: processAIAnalysis_def split: prod.splits sum.splits)

lemma enrichment_entries:
  assumes "analyzeSentiment rt now w content = (r1, w1)"
    and "generateTags rt now w1 content = (r2, w2)"
    and "generateSummary rt now w2 content = (r3, w3)"
  shows "connected (db w3) = connected (db w) \<and> diary_entries (db w3) = diary_entries (db w)"
proof -
  have "db w1 = db w" using analyzeSentiment_db [of rt now w content] assms(1) by simp
  moreover have "db w2 = db w1" using generateTags_db [of rt now w1 content] assms(2) by simp
  moreover have "same_entries w2 w3" using generateSummary_entries [of w2 rt now content] assms(3) by simp
  ultimately show ?thesis by (simp add: same_entries_def)
qed

text \<open>
  C1, as the code has it. \<^verbatim>\<open>processAIAnalysis\<close> never raises. It waits for the three
  analyses with \<^verbatim>\<open>Promise.all\<close>: when all three succeed and the update goes through, the
  entry gets the three results in one update; when any of them fails, the update is not
  sent and every field of every entry, also the fields whose analysis succeeded, stays at
  its previous value.
\<close>

theorem processAIAnalysis_all_or_nothing:
  "fst (processAIAnalysis rt now w entryId content) = Inr ()
   \<and> (settled_analyses rt now w content = (Inr s, Inr t, Inr m) \<and> connected (db w)
        \<and> update_entry entryId (set_analysis s t m) (diary_entries (db w)) = Some es
       \<longrightarrow> diary_entries (db (snd (processAIAnalysis rt now w entryId content))) = es)
   \<and> ((case settled_analyses rt now w content of (a, b, c) \<Rightarrow> isl a \<or> isl b \<or> isl c)
       \<longrightarrow> diary_entries (db (snd (processAIAnalysis rt now w entryId content)))
           = diary_entries (db w))"
proof -
  obtain r1 w1 where a1: "analyzeSentiment rt now w content = (r1, w1)"
    by (cases "analyzeSentiment rt now w content")
  obtain r2 w2 where a2: "generateTags rt now w1 content = (r2, w2)"
    by (cases "generateTags rt now w1 content")
  obtain r3 w3 where a3: "generateSummary rt now w2 content = (r3, w3)"
    by (cases "generateSummary rt now w2 content")
  note inv = enrichment_entries [OF a1 a2 a3]
  have st: "settled_analyses rt now w content = (r1, r2, r3)"
    by (simp add: settled_analyses_def a1 a2 a3)
  have ok: "diary_entries (db (snd (processAIAnalysis rt now w entryId content))) = es"
    if "r1 = Inr s" "r2 = Inr t" "r3 = Inr m" "connected (db w)"
      "update_entry entryId (set_analysis s t m) (diary_entries (db w)) = Some es"
    using that inv
    by (simp add: processAIAnalysis_def processAIAnalysis_try_def a1 a2 a3 promise_all3_def
        diaryEntry_update_def console_write_def)
  have bad: "diary_entries (db (snd (processAIAnalysis rt now w entryId content)))
           = diary_entries (db w)"
    if "isl r1 \<or> isl r2 \<or> isl r3"
    using that inv
    by (auto simp: processAIAnalysis_def processAIAnalysis_try_def a1 a2 a3 promise_all3_def
        console_write_def isl_def split: sum.splits)
  show ?thesis using ok bad st processAIAnalysis_never_raises by auto
qed

theorem processAIAnalysis_all_or_nothing_witness:
  "settled_analyses sample_runtime 1000
      (sample_world None None (Some [\<lparr>row_key = generateCacheKey ''Had a great day at the park'' ''summary'',
         row_result = JStr ''A walk in the park.'', row_type = ''summary'', row_expiresAt = 9000\<rparr>]))
      ''Had a great day at the park''
     = (Inr neutral_sentiment, Inr (JArr []), Inr (JStr ''A walk in the park.''))
   \<and> update_entry ''e1'' (set_analysis neutral_sentiment (JArr []) (JStr ''A walk in the park.''))
        [sample_entry]
     = Some [sample_entry\<lparr>aiSentiment := Some neutral_sentiment, aiTags := Some (JArr []),
                          aiSummary := Some (JStr ''A walk in the park.'')\<rparr>]
   \<and> diary_entries (db (snd (processAIAnalysis sample_runtime 1000
      (sample_world None None (Some [\<lparr>row_key = generateCacheKey ''Had a great day at the park'' ''summary'',
         row_result = JStr ''A walk in the park.'', row_type = ''summary'', row_expiresAt = 9000\<rparr>]))
      ''e1'' ''Had a great day at the park'')))
     = [sample_entry\<lparr>aiSentiment := Some neutral_sentiment, aiTags := Some (JArr []),
                      aiSummary := Some (JStr ''A walk in the park.'')\<rparr>]
   \<and> settled_analyses sample_runtime 1000 (sample_world None None (Some []))
        ''Had a great day at the park''
     = (Inr neutral_sentiment, Inr (JArr []), Inl (AppError ''Failed to generate summary'' 500))
   \<and> diary_entries (db (snd (processAIAnalysis sample_runtime 1000
        (sample_world None None (Some [])) ''e1'' ''Had a great day at the park'')))
     = [sample_entry]"
  using processAIAnalysis_all_or_nothing
     [of sample_runtime 1000
         "sample_world None None (Some [\<lparr>row_key = generateCacheKey ''Had a great day at the park'' ''summary'',
            row_result = JStr ''A walk in the park.'', row_type = ''summary'', row_expiresAt = 9000\<rparr>])"
         "''e1''" "''Had a great day at the park''"
         neutral_sentiment "JArr []" "JStr ''A walk in the park.''"
         "[sample_entry\<lparr>aiSentiment := Some neutral_sentiment, aiTags := Some (JArr []),
                          aiSummary := Some (JStr ''A walk in the park.'')\<rparr>]"]
    processAIAnalysis_all_or_nothing
     [of sample_runtime 1000 "sample_world None None (Some [])" "''e1''"
         "''Had a great day at the park''"]
  by (simp add: eval_defs)

text \<open>
  The claim as the specification states it fails where the provider is not configured
  and the summary is not cached: sentiment and tags succeed, the summary fails, and the
  entry keeps no sentiment and no tags.
\<close>

theorem enrichment_partial_failure_counterexample:
  "fst (analyzeSentiment sample_runtime 1000 (sample_world None None (Some []))
          ''Had a great day at the park'') = Inr neutral_sentiment
   \<and> fst (generateTags sample_runtime 1000 (sample_world None None (Some []))
          ''Had a great day at the park'') = Inr (JArr [])
   \<and> fst (generateSummary sample_runtime 1000 (sample_world None None (Some []))
          ''Had a great day at the park'') = Inl (AppError ''Failed to generate summary'' 500)
   \<and> map aiSentiment (diary_entries (db (snd (processAIAnalysis sample_runtime 1000
          (sample_world None None (Some [])) ''e1'' ''Had a great day at the park'')))) = [None]
   \<and> map aiTags (diary_entries (db (snd (processAIAnalysis sample_runtime 1000
          (sample_world None None (Some [])) ''e1'' ''Had a great day at the park'')))) = [None]"
  by (simp add: eval_defs)

section \<open>The analyses without a provider, and the cache in front of the provider\<close>

lemma unconfigured_defaults:
  assumes "openai w = None"
  shows "fst (analyzeSentiment rt now w content) = Inr neutral_sentiment"
    and "fst (generateTags rt now w content) = Inr (JArr [])"
  using assms by (simp_all add: analyzeSentiment_def generateTags_def)

text \<open>
  C2 holds for \<^verbatim>\<open>analyzeSentiment\<close> and \<^verbatim>\<open>generateTags\<close> and fails for
  \<^verbatim>\<open>generateSummary\<close>: without a provider and without a cached summary it does not
  return the empty string, it raises an \<^verbatim>\<open>AppError\<close> with status 500.
\<close>

theorem generateSummary_unconfigured_raises:
  "openai (sample_world None None (Some [])) = None
   \<and> fst (generateSummary sample_runtime 1000 (sample_world None None (Some []))
          ''Had a great day at the park'') = Inl (AppError ''Failed to generate summary'' 500)"
  by (simp add: eval_defs)

text \<open>
  C3 holds for \<^verbatim>\<open>generateSummary\<close> and fails for the other two: with a live result for
  the content in both tiers of the cache, \<^verbatim>\<open>analyzeSentiment\<close> and \<^verbatim>\<open>generateTags\<close> send
  their request to the provider all the same, and do not return what the cache holds.
\<close>

theorem cached_sentiment_still_calls_provider:
  "fst (getCachedResult sample_runtime 1000
          (sample_world (Some sample_client)
             (Some \<lparr>status = Ready,
                    store = [(generateCacheKey ''Had a great day at the park'' ''sentiment'',
                              ''{\"score\":0.5,\"label\":\"positive\"}'', 9000)]\<rparr>)
             (Some [\<lparr>row_key = generateCacheKey ''Had a great day at the park'' ''sentiment'',
                     row_result = JObj [(''score'', JNum (1 / 2)), (''label'', JStr ''positive'')],
                     row_type = ''sentiment'', row_expiresAt = 9000\<rparr>]))
          (generateCacheKey ''Had a great day at the park'' ''sentiment'') ''sentiment'')
     = Inr (JObj [(''score'', JNum (1 / 2)), (''label'', JStr ''positive'')])
   \<and> analyzeSentiment sample_runtime 1000
          (sample_world (Some sample_client)
             (Some \<lparr>status = Ready,
                    store = [(generateCacheKey ''Had a great day at the park'' ''sentiment'',
                              ''{\"score\":0.5,\"label\":\"positive\"}'', 9000)]\<rparr>)
             (Some [\<lparr>row_key = generateCacheKey ''Had a great day at the park'' ''sentiment'',
                     row_result = JObj [(''score'', JNum (1 / 2)), (''label'', JStr ''positive'')],
                     row_type = ''sentiment'', row_expiresAt = 9000\<rparr>]))
          ''Had a great day at the park''
     = (Inl (AppError ''Failed to analyze sentiment'' 500),
        (sample_world (Some sample_client)
             (Some \<lparr>status = Ready,
                    store = [(generateCacheKey ''Had a great day at the park'' ''sentiment'',
                              ''{\"score\":0.5,\"label\":\"positive\"}'', 9000)]\<rparr>)
             (Some [\<lparr>row_key = generateCacheKey ''Had a great day at the park'' ''sentiment'',
                     row_result = JObj [(''score'', JNum (1 / 2)), (''label'', JStr ''positive'')],
                     row_type = ''sentiment'', row_expiresAt = 9000\<rparr>]))
          \<lparr>console := [''Sentiment analysis failed:''],
           provider_calls := [(SentimentPrompt, ''Had a great day at the park'')]\<rparr>)
   \<and> fst (getCachedResult sample_runtime 1000
          (sample_world (Some sample_client) None
             (Some [\<lparr>row_key = generateCacheKey ''Had a great day at the park'' ''tags'',
                     row_result = JArr [JStr ''park'', JStr ''happy''],
                     row_type = ''tags'', row_expiresAt = 9000\<rparr>]))
          (generateCacheKey ''Had a great day at the park'' ''tags'') ''tags'')
     = Inr (JArr [JStr ''park'', JStr ''happy''])
   \<and> analyzeSentiment sample_runtime 1000 (sample_world (Some sample_client) None (Some []))
          ''Had a great day at the park''
     = (Inl (AppError ''Failed to analyze sentiment'' 500),
        (sample_world (Some sample_client) None (Some []))
          \<lparr>console := [''Sentiment analysis failed:''],
           provider_calls := [(SentimentPrompt, ''Had a great day at the park'')]\<rparr>)
   \<and> generateTags sample_runtime 1000
          (sample_world (Some sample_client) None
             (Some [\<lparr>row_key = generateCacheKey ''Had a great day at the park'' ''tags'',
                     row_result = JArr [JStr ''park'', JStr ''happy''],
                     row_type = ''tags'', row_expiresAt = 9000\<rparr>]))
          ''Had a great day at the park''
     = (Inl (AppError ''Failed to generate tags'' 500),
        (sample_world (Some sample_client) None
             (Some [\<lparr>row_key = generateCacheKey ''Had a great day at the park'' ''tags'',
                     row_result = JArr [JStr ''park'', JStr ''happy''],
                     row_type = ''tags'', row_expiresAt = 9000\<rparr>]))
          \<lparr>console := [''Tag generation failed:''],
           provider_calls := [(TagsPrompt, ''Had a great day at the park'')]\<rparr>)"
  by (simp add: eval_defs)

section \<open>Reading the cache\<close>

lemma getCachedResult_never_raises: "\<exists>v. fst (getCachedResult rt now w key type) = Inr v"
  by (simp add: getCachedResult_def split: prod.splits sum.splits)

lemma durable_hit_no_client:
  assumes "aICache_findFirst now (db w) key type = Inr (Some r)" and "redis w = None"
  shows "fst (getCachedResult rt now w key type) = Inr (row_result r)
       \<and> redis (snd (getCachedResult rt now w key type)) = None
       \<and> db (snd (getCachedResult rt now w key type)) = db w"
  using assms
  by (simp add: getCachedResult_def getCachedResult_try_def redis_tier_def database_tier_def)

lemma durable_hit_repopulates:
  assumes "aICache_findFirst now (db w) key type = Inr (Some r)" and "redis w = Some c"
    and "redis_tier rt now w key = Inr None"
    and "redis_setex now c key (Some 3600) (JSON_stringify rt (row_result r)) = Inr c'"
  shows "fst (getCachedResult rt now w key type) = Inr (row_result r)
       \<and> redis (snd (getCachedResult rt now w key type)) = Some c'
       \<and> db (snd (getCachedResult rt now w key type)) = db w"
  using assms
  by (simp add: getCachedResult_def getCachedResult_try_def database_tier_def)

lemma durable_hit_write_refused:
  assumes "aICache_findFirst now (db w) key type = Inr (Some r)" and "redis w = Some c"
    and "redis_tier rt now w key = Inr None"
    and "redis_setex now c key (Some 3600) (JSON_stringify rt (row_result r)) = Inl e"
  shows "fst (getCachedResult rt now w key type) = Inr JNull
       \<and> redis (snd (getCachedResult rt now w key type)) = redis w
       \<and> db (snd (getCachedResult rt now w key type)) = db w"
  using assms
  by (simp add: getCachedResult_def getCachedResult_try_def database_tier_def console_write_def)

text \<open>What a Redis in working order makes of the write that repopulates it.\<close>

lemma setex_ready:
  assumes "status c = Ready" and "0 < s" and "now + s * 1000 \<le> 9223372036854775807"
  shows "redis_setex now c key (Some s) v
       = Inr (c\<lparr>store := (key, v, now + s * 1000) # filter (\<lambda>p. fst p \<noteq> key) (store c)\<rparr>)"
  using assms by (simp add: redis_setex_def)

text \<open>
  C5, as the code has it. Let the durable tier hold an unexpired row for the key and the
  kind, and let the volatile tier miss: there is no Redis client, or the client's lookup
  answers with nothing. Then \<^verbatim>\<open>getCachedResult\<close> returns the row's result and, with a
  client, stores it in Redis for 3600 seconds, provided Redis accepts that write. When
  Redis refuses the write, nothing is raised and neither tier changes, but the caller gets
  null instead of the row's result: the write sits in the same \<^verbatim>\<open>try\<close> as the lookup.
  \<^verbatim>\<open>getCachedResult\<close> never raises.
\<close>

theorem getCachedResult_durable_hit:
  assumes "aICache_findFirst now (db w) key type = Inr (Some r)"
  shows "(redis w = None \<longrightarrow>
           fst (getCachedResult rt now w key type) = Inr (row_result r)
           \<and> redis (snd (getCachedResult rt now w key type)) = None
           \<and> db (snd (getCachedResult rt now w key type)) = db w)
    \<and> (redis w = Some c \<and> redis_tier rt now w key = Inr None
         \<and> redis_setex now c key (Some 3600) (JSON_stringify rt (row_result r)) = Inr c' \<longrightarrow>
           fst (getCachedResult rt now w key type) = Inr (row_result r)
           \<and> redis (snd (getCachedResult rt now w key type)) = Some c'
           \<and> db (snd (getCachedResult rt now w key type)) = db w)
    \<and> (redis w = Some c \<and> redis_tier rt now w key = Inr None
         \<and> redis_setex now c key (Some 3600) (JSON_stringify rt (row_result r)) = Inl e \<longrightarrow>
           fst (getCachedResult rt now w key type) = Inr JNull
           \<and> redis (snd (getCachedResult rt now w key type)) = redis w
           \<and> db (snd (getCachedResult rt now w key type)) = db w)
    \<and> (\<exists>v. fst (getCachedResult rt now w key type) = Inr v)"
proof -
  have none: "redis w = None \<longrightarrow>
           fst (getCachedResult rt now w key type) = Inr (row_result r)
           \<and> redis (snd (getCachedResult rt now w key type)) = None
           \<and> db (snd (getCachedResult rt now w key type)) = db w"
    using durable_hit_no_client [OF assms] by blast
  have accepted: "redis w = Some c \<and> redis_tier rt now w key = Inr None
         \<and> redis_setex now c key (Some 3600) (JSON_stringify rt (row_result r)) = Inr c' \<longrightarrow>
           fst (getCachedResult rt now w key type) = Inr (row_result r)
           \<and> redis (snd (getCachedResult rt now w key type)) = Some c'
           \<and> db (snd (getCachedResult rt now w key type)) = db w"
    using durable_hit_repopulates [OF assms] by blast
  have refused: "redis w = Some c \<and> redis_tier rt now w key = Inr None
         \<and> redis_setex now c key (Some 3600) (JSON_stringify rt (row_result r)) = Inl e \<longrightarrow>
           fst (getCachedResult rt now w key type) = Inr JNull
           \<and> redis (snd (getCachedResult rt now w key type)) = redis w
           \<and> db (snd (getCachedResult rt now w key type)) = db w"
    using durable_hit_write_refused [OF assms] by blast
  from none accepted refused getCachedResult_never_raises [of rt now w key type]
  show ?thesis by (intro conjI)
qed

theorem getCachedResult_durable_hit_witness:
  "aICache_findFirst 1000
      (db (sample_world None (Some \<lparr>status = Ready, store = []\<rparr>)
             (Some [\<lparr>row_key = ''k'', row_result = JArr [JStr ''park'', JStr ''happy''],
                     row_type = ''tags'', row_expiresAt = 9000\<rparr>]))) ''k'' ''tags''
     = Inr (Some \<lparr>row_key = ''k'', row_result = JArr [JStr ''park'', JStr ''happy''],
                  row_type = ''tags'', row_expiresAt = 9000\<rparr>)
   \<and> redis_tier sample_runtime 1000
        (sample_world None (Some \<lparr>status = Ready, store = []\<rparr>)
             (Some [\<lparr>row_key = ''k'', row_result = JArr [JStr ''park'', JStr ''happy''],
                     row_type = ''tags'', row_expiresAt = 9000\<rparr>])) ''k'' = Inr None
   \<and> redis_setex 1000 \<lparr>status = Ready, store = []\<rparr> ''k'' (Some 3600)
        (JSON_stringify sample_runtime (JArr [JStr ''park'', JStr ''happy'']))
     = Inr \<lparr>status = Ready, store = [(''k'', ''[\"park\",\"happy\"]'', 3601000)]\<rparr>
   \<and> fst (getCachedResult sample_runtime 1000
        (sample_world None (Some \<lparr>status = Ready, store = []\<rparr>)
             (Some [\<lparr>row_key = ''k'', row_result = JArr [JStr ''park'', JStr ''happy''],
                     row_type = ''tags'', row_expiresAt = 9000\<rparr>])) ''k'' ''tags'')
     = Inr (JArr [JStr ''park'', JStr ''happy''])
   \<and> redis (snd (getCachedResult sample_runtime 1000
        (sample_world None (Some \<lparr>status = Ready, store = []\<rparr>)
             (Some [\<lparr>row_key = ''k'', row_result = JArr [JStr ''park'', JStr ''happy''],
                     row_type = ''tags'', row_expiresAt = 9000\<rparr>])) ''k'' ''tags''))
     = Some \<lparr>status = Ready, store = [(''k'', ''[\"park\",\"happy\"]'', 3601000)]\<rparr>
   \<and> fst (getCachedResult sample_runtime 1000
        (sample_world None None
             (Some [\<lparr>row_key = ''k'', row_result = JArr [JStr ''park'', JStr ''happy''],
                     row_type = ''tags'', row_expiresAt = 9000\<rparr>])) ''k'' ''tags'')
     = Inr (JArr [JStr ''park'', JStr ''happy''])
   \<and> redis_tier sample_runtime 1000
        (sample_world None (Some \<lparr>status = WritesRejected, store = []\<rparr>)
             (Some [\<lparr>row_key = ''k'', row_result = JArr [JStr ''park'', JStr ''happy''],
                     row_type = ''tags'', row_expiresAt = 9000\<rparr>])) ''k'' = Inr None
   \<and> redis_setex 1000 \<lparr>status = WritesRejected, store = []\<rparr> ''k'' (Some 3600)
        (JSON_stringify sample_runtime (JArr [JStr ''park'', JStr ''happy''])) = Inl RedisError
   \<and> fst (getCachedResult sample_runtime 1000
        (sample_world None (Some \<lparr>status = WritesRejected, store = []\<rparr>)
             (Some [\<lparr>row_key = ''k'', row_result = JArr [JStr ''park'', JStr ''happy''],
                     row_type = ''tags'', row_expiresAt = 9000\<rparr>])) ''k'' ''tags'') = Inr JNull"
  using getCachedResult_durable_hit
     [where now = 1000 and rt = sample_runtime and key = "''k''" and type = "''tags''"
        and w = "sample_world None None
             (Some [\<lparr>row_key = ''k'', row_result = JArr [JStr ''park'', JStr ''happy''],
                     row_type = ''tags'', row_expiresAt = 9000\<rparr>])"
        and r = "\<lparr>row_key = ''k'', row_result = JArr [JStr ''park'', JStr ''happy''],
                  row_type = ''tags'', row_expiresAt = 9000\<rparr>"]
    getCachedResult_durable_hit
     [where now = 1000 and rt = sample_runtime and key = "''k''" and type = "''tags''"
        and w = "sample_world None (Some \<lparr>status = WritesRejected, store = []\<rparr>)
             (Some [\<lparr>row_key = ''k'', row_result = JArr [JStr ''park'', JStr ''happy''],
                     row_type = ''tags'', row_expiresAt = 9000\<rparr>])"
        and r = "\<lparr>row_key = ''k'', row_result = JArr [JStr ''park'', JStr ''happy''],
                  row_type = ''tags'', row_expiresAt = 9000\<rparr>"
        and c = "\<lparr>status = WritesRejected, store = []\<rparr>" and e = RedisError]
    getCachedResult_durable_hit
     [where now = 1000 and rt = sample_runtime and key = "''k''" and type = "''tags''"
        and w = "sample_world None (Some \<lparr>status = Ready, store = []\<rparr>)
             (Some [\<lparr>row_key = ''k'', row_result = JArr [JStr ''park'', JStr ''happy''],
                     row_type = ''tags'', row_expiresAt = 9000\<rparr>])"
        and r = "\<lparr>row_key = ''k'', row_result = JArr [JStr ''park'', JStr ''happy''],
                  row_type = ''tags'', row_expiresAt = 9000\<rparr>"
        and c = "\<lparr>status = Ready, store = []\<rparr>"
        and c' = "\<lparr>status = Ready, store = [(''k'', ''[\"park\",\"happy\"]'', 3601000)]\<rparr>"]
  by (simp add: eval_defs)

text \<open>
  The claim as the specification states it fails where the write that repopulates Redis
  fails: the lookup in Redis answers with nothing, the durable tier holds a live row, the
  server refuses the write, and the caller gets null rather than the row's result.
\<close>

theorem getCachedResult_durable_hit_counterexample:
  "redis_get 1000 \<lparr>status = WritesRejected, store = []\<rparr> ''k'' = Inr None
   \<and> aICache_findFirst 1000
      (db (sample_world None (Some \<lparr>status = WritesRejected, store = []\<rparr>)
             (Some [\<lparr>row_key = ''k'', row_result = JArr [JStr ''park'', JStr ''happy''],
                     row_type = ''tags'', row_expiresAt = 9000\<rparr>]))) ''k'' ''tags''
     = Inr (Some \<lparr>row_key = ''k'', row_result = JArr [JStr ''park'', JStr ''happy''],
                  row_type = ''tags'', row_expiresAt = 9000\<rparr>)
   \<and> redis_setex 1000 \<lparr>status = WritesRejected, store = []\<rparr> ''k'' (Some 3600)
        ''[\"park\",\"happy\"]'' = Inl RedisError
   \<and> fst (getCachedResult sample_runtime 1000
        (sample_world None (Some \<lparr>status = WritesRejected, store = []\<rparr>)
             (Some [\<lparr>row_key = ''k'', row_result = JArr [JStr ''park'', JStr ''happy''],
                     row_type = ''tags'', row_expiresAt = 9000\<rparr>])) ''k'' ''tags'')
     = Inr JNull"
  by (simp add: eval_defs)

section \<open>Writing the cache\<close>

lemma cacheResult_never_raises: "fst (cacheResult rt now w key type result) = Inr ()"
  by (simp add: cacheResult_def split: prod.splits sum.splits)

lemma volatile_write_refused_skips_durable:
  assumes "redis w = Some c" and "status c = Ready \<or> status c = WritesRejected"
    and "redis_setex now c key (AI_CACHE_TTL rt) (JSON_stringify rt result) = Inl e"
  shows "db (snd (cacheResult rt now w key type result)) = db w
       \<and> redis (snd (cacheResult rt now w key type result)) = redis w
       \<and> ''Cache storage failed:'' \<in> set (console (snd (cacheResult rt now w key type result)))"
  using assms
  by (auto simp: cacheResult_def cacheResult_try_def Let_def console_write_def)

lemma durable_upsert_no_client:
  assumes "redis w = None" and "connected (db w)" and "ai_cache (db w) = Some rows"
    and "AI_CACHE_TTL rt = Some ttl" and "valid_time (now + ttl * 1000)"
  shows "db (snd (cacheResult rt now w key type result))
       = (db w)\<lparr>ai_cache := Some (upsert_row
             \<lparr>row_key = key, row_result = result, row_type = type,
              row_expiresAt = now + ttl * 1000\<rparr> rows)\<rparr>
       \<and> redis (snd (cacheResult rt now w key type result)) = None"
  using assms
  by (simp add: cacheResult_def cacheResult_try_def Let_def aICache_upsert_def new_Date_def)

lemma durable_upsert_after_volatile:
  assumes "redis w = Some c"
    and "redis_setex now c key (AI_CACHE_TTL rt) (JSON_stringify rt result) = Inr c'"
    and "connected (db w)" and "ai_cache (db w) = Some rows"
    and "AI_CACHE_TTL rt = Some ttl" and "valid_time (now + ttl * 1000)"
  shows "db (snd (cacheResult rt now w key type result))
       = (db w)\<lparr>ai_cache := Some (upsert_row
             \<lparr>row_key = key, row_result = result, row_type = type,
              row_expiresAt = now + ttl * 1000\<rparr> rows)\<rparr>
       \<and> redis (snd (cacheResult rt now w key type result)) = Some c'"
  using assms
  by (simp add: cacheResult_def cacheResult_try_def Let_def aICache_upsert_def new_Date_def)

lemma fresh_summary_returned:
  assumes "openai w = Some client" and "client SummaryPrompt content = Inr answer"
    and "\<not> truthy (projr (fst (getCachedResult rt now w (generateCacheKey content ''summary'') ''summary'')))"
  shows "fst (generateSummary rt now w content) = Inr (JStr (or_default answer ''''))"
proof -
  obtain v w0 where g: "getCachedResult rt now w (generateCacheKey content ''summary'') ''summary'' = (Inr v, w0)"
    and o: "openai w0 = openai w"
    using getCachedResult_shape by blast
  obtain w1 where c: "chat_completions_create client SummaryPrompt content w0 = (Inr answer, w1)"
    using assms(2) by (simp add: chat_completions_create_def)
  obtain w2 where p: "cacheResult rt now w1 (generateCacheKey content ''summary'') ''summary''
       (JStr (or_default answer '''')) = (Inr (), w2)"
    using cacheResult_shape by blast
  from assms(3) g have "\<not> truthy v" by simp
  with g o c p assms(1) show ?thesis
    by (simp add: generateSummary_def generateSummary_try_def Let_def)
qed

text \<open>
  C6, as the code has it. \<^verbatim>\<open>cacheResult\<close> never raises. When a Redis that can be reached
  refuses the write, the failure is logged and ends the \<^verbatim>\<open>try\<close>: neither tier changes,
  so the row is not upserted. Without a client, or after a write that Redis accepted, a
  reachable database upserts the row with \<open>expiresAt = now + ttl * 1000\<close>, provided that
  instant is a valid date. Whatever the two tiers do, \<^verbatim>\<open>generateSummary\<close> returns the
  summary it has just obtained from the provider.
\<close>

theorem cacheResult_failure_isolation:
  "fst (cacheResult rt now w key type result) = Inr ()
   \<and> (redis w = Some c \<and> (status c = Ready \<or> status c = WritesRejected)
        \<and> redis_setex now c key (AI_CACHE_TTL rt) (JSON_stringify rt result) = Inl e
       \<longrightarrow> db (snd (cacheResult rt now w key type result)) = db w
            \<and> redis (snd (cacheResult rt now w key type result)) = redis w
            \<and> ''Cache storage failed:''
                \<in> set (console (snd (cacheResult rt now w key type result))))
   \<and> (redis w = None \<and> connected (db w) \<and> ai_cache (db w) = Some rows
        \<and> AI_CACHE_TTL rt = Some ttl \<and> valid_time (now + ttl * 1000)
       \<longrightarrow> db (snd (cacheResult rt now w key type result))
            = (db w)\<lparr>ai_cache := Some (upsert_row
                  \<lparr>row_key = key, row_result = result, row_type = type,
                   row_expiresAt = now + ttl * 1000\<rparr> rows)\<rparr>
            \<and> redis (snd (cacheResult rt now w key type result)) = None)
   \<and> (redis w = Some c
        \<and> redis_setex now c key (AI_CACHE_TTL rt) (JSON_stringify rt result) = Inr c'
        \<and> connected (db w) \<and> ai_cache (db w) = Some rows
        \<and> AI_CACHE_TTL rt = Some ttl \<and> valid_time (now + ttl * 1000)
       \<longrightarrow> db (snd (cacheResult rt now w key type result))
            = (db w)\<lparr>ai_cache := Some (upsert_row
                  \<lparr>row_key = key, row_result = result, row_type = type,
                   row_expiresAt = now + ttl * 1000\<rparr> rows)\<rparr>
            \<and> redis (snd (cacheResult rt now w key type result)) = Some c')
   \<and> (openai w = Some client \<and> client SummaryPrompt content = Inr answer
        \<and> \<not> truthy (projr (fst (getCachedResult rt now w
                 (generateCacheKey content ''summary'') ''summary'')))
       \<longrightarrow> fst (generateSummary rt now w content) = Inr (JStr (or_default answer '''')))"
proof -
  have refused: "redis w = Some c \<and> (status c = Ready \<or> status c = WritesRejected)
        \<and> redis_setex now c key (AI_CACHE_TTL rt) (JSON_stringify rt result) = Inl e
       \<longrightarrow> db (snd (cacheResult rt now w key type result)) = db w
            \<and> redis (snd (cacheResult rt now w key type result)) = redis w
            \<and> ''Cache storage failed:''
                \<in> set (console (snd (cacheResult rt now w key type result)))"
    using volatile_write_refused_skips_durable [of w c now key rt result e type] by blast
  have no_client: "redis w = None \<and> connected (db w) \<and> ai_cache (db w) = Some rows
        \<and> AI_CACHE_TTL rt = Some ttl \<and> valid_time (now + ttl * 1000)
       \<longrightarrow> db (snd (cacheResult rt now w key type result))
            = (db w)\<lparr>ai_cache := Some (upsert_row
                  \<lparr>row_key = key, row_result = result, row_type = type,
                   row_expiresAt = now + ttl * 1000\<rparr> rows)\<rparr>
            \<and> redis (snd (cacheResult rt now w key type result)) = None"
    using durable_upsert_no_client [of w rows rt ttl now key type result] by blast
  have accepted: "redis w = Some c
        \<and> redis_setex now c key (AI_CACHE_TTL rt) (JSON_stringify rt result) = Inr c'
        \<and> connected (db w) \<and> ai_cache (db w) = Some rows
        \<and> AI_CACHE_TTL rt = Some ttl \<and> valid_time (now + ttl * 1000)
       \<longrightarrow> db (snd (cacheResult rt now w key type result))
            = (db w)\<lparr>ai_cache := Some (upsert_row
                  \<lparr>row_key = key, row_result = result, row_type = type,
                   row_expiresAt = now + ttl * 1000\<rparr> rows)\<rparr>
            \<and> redis (snd (cacheResult rt now w key type result)) = Some c'"
    using durable_upsert_after_volatile [of w c now key rt result c' rows ttl type] by blast
  have fresh: "openai w = Some client \<and> client SummaryPrompt content = Inr answer
        \<and> \<not> truthy (projr (fst (getCachedResult rt now w
                 (generateCacheKey content ''summary'') ''summary'')))
       \<longrightarrow> fst (generateSummary rt now w content) = Inr (JStr (or_default answer ''''))"
    using fresh_summary_returned [of w client content answer rt now] by blast
  from cacheResult_never_raises [of rt now w key type result] refused no_client accepted fresh
  show ?thesis by (intro conjI)
qed

theorem cacheResult_failure_isolation_witness:
  "redis_setex 1000 \<lparr>status = WritesRejected, store = []\<rparr> ''k'' (AI_CACHE_TTL sample_runtime)
       (JSON_stringify sample_runtime (JArr [JStr ''park'', JStr ''happy''])) = Inl RedisError
   \<and> ai_cache (db (snd (cacheResult sample_runtime 1000
            (sample_world None (Some \<lparr>status = WritesRejected, store = []\<rparr>) (Some []))
            ''k'' ''tags'' (JArr [JStr ''park'', JStr ''happy'']))))
     = Some []
   \<and> ''Cache storage failed:'' \<in> set (console (snd (cacheResult sample_runtime 1000
            (sample_world None (Some \<lparr>status = WritesRejected, store = []\<rparr>) (Some []))
            ''k'' ''tags'' (JArr [JStr ''park'', JStr ''happy'']))))
   \<and> AI_CACHE_TTL sample_runtime = Some 3600 \<and> valid_time (1000 + 3600 * 1000)
   \<and> ai_cache (db (snd (cacheResult sample_runtime 1000 (sample_world None None (Some []))
            ''k'' ''tags'' (JArr [JStr ''park'', JStr ''happy'']))))
     = Some [\<lparr>row_key = ''k'', row_result = JArr [JStr ''park'', JStr ''happy''],
              row_type = ''tags'', row_expiresAt = 3601000\<rparr>]
   \<and> redis_setex 1000 \<lparr>status = Ready, store = []\<rparr> ''k'' (AI_CACHE_TTL sample_runtime)
       (JSON_stringify sample_runtime (JArr [JStr ''park'', JStr ''happy'']))
     = Inr \<lparr>status = Ready, store = [(''k'', ''[\"park\",\"happy\"]'', 3601000)]\<rparr>
   \<and> ai_cache (db (snd (cacheResult sample_runtime 1000
            (sample_world None (Some \<lparr>status = Ready, store = []\<rparr>) (Some []))
            ''k'' ''tags'' (JArr [JStr ''park'', JStr ''happy'']))))
     = Some [\<lparr>row_key = ''k'', row_result = JArr [JStr ''park'', JStr ''happy''],
              row_type = ''tags'', row_expiresAt = 3601000\<rparr>]
   \<and> redis (snd (cacheResult sample_runtime 1000
            (sample_world None (Some \<lparr>status = Ready, store = []\<rparr>) (Some []))
            ''k'' ''tags'' (JArr [JStr ''park'', JStr ''happy''])))
     = Some \<lparr>status = Ready, store = [(''k'', ''[\"park\",\"happy\"]'', 3601000)]\<rparr>
   \<and> fst (generateSummary sample_runtime 1000
            (sample_world (Some sample_client) (Some \<lparr>status = WritesRejected, store = []\<rparr>) None)
            ''Had a great day at the park'')
     = Inr (JStr ''A walk in the park.'')"
  using cacheResult_failure_isolation
     [where rt = sample_runtime and now = 1000 and key = "''k''" and type = "''tags''"
        and result = "JArr [JStr ''park'', JStr ''happy'']"
        and w = "sample_world None (Some \<lparr>status = WritesRejected, store = []\<rparr>) (Some [])"
        and c = "\<lparr>status = WritesRejected, store = []\<rparr>" and e = RedisError]
    cacheResult_failure_isolation
     [where rt = sample_runtime and now = 1000 and key = "''k''" and type = "''tags''"
        and result = "JArr [JStr ''park'', JStr ''happy'']"
        and w = "sample_world None None (Some [])" and rows = "[]" and ttl = 3600]
    cacheResult_failure_isolation
     [where rt = sample_runtime and now = 1000 and key = "''k''" and type = "''tags''"
        and result = "JArr [JStr ''park'', JStr ''happy'']"
        and w = "sample_world None (Some \<lparr>status = Ready, store = []\<rparr>) (Some [])"
        and c = "\<lparr>status = Ready, store = []\<rparr>" and rows = "[]" and ttl = 3600
        and c' = "\<lparr>status = Ready, store = [(''k'', ''[\"park\",\"happy\"]'', 3601000)]\<rparr>"]
    cacheResult_failure_isolation
     [where rt = sample_runtime and now = 1000
        and w = "sample_world (Some sample_client)
                   (Some \<lparr>status = WritesRejected, store = []\<rparr>) None"
        and client = sample_client and content = "''Had a great day at the park''"
        and answer = "Some ''A walk in the park.''"]
  by (simp add: eval_defs)

text \<open>
  The claim as the specification states it fails where a Redis that can be reached
  refuses the write: nothing is raised, and the row is not upserted. It also fails,
  without any client, for a time-to-live that takes the expiry out of the range of dates:
  the upsert is rejected and no row is written.
\<close>

theorem cacheResult_failure_isolation_counterexample:
  "redis_setex 1000 \<lparr>status = WritesRejected, store = []\<rparr> ''k'' (Some 3600)
       ''[\"park\",\"happy\"]'' = Inl RedisError
   \<and> fst (cacheResult sample_runtime 1000
            (sample_world None (Some \<lparr>status = WritesRejected, store = []\<rparr>) (Some []))
            ''k'' ''tags'' (JArr [JStr ''park'', JStr ''happy''])) = Inr ()
   \<and> ai_cache (db (snd (cacheResult sample_runtime 1000
            (sample_world None (Some \<lparr>status = WritesRejected, store = []\<rparr>) (Some []))
            ''k'' ''tags'' (JArr [JStr ''park'', JStr ''happy''])))) = Some []
   \<and> \<not> valid_time (1000 + 9999999999999 * 1000)
   \<and> ai_cache (db (snd (cacheResult (sample_runtime\<lparr>AI_CACHE_TTL := Some 9999999999999\<rparr>) 1000
            (sample_world None None (Some []))
            ''k'' ''tags'' (JArr [JStr ''park'', JStr ''happy''])))) = Some []"
  by (simp add: eval_defs)

section \<open>Expiry\<close>

lemma find_all_expired:
  "list_all (\<lambda>r. row_key r = key \<and> row_type r = type \<longrightarrow> row_expiresAt r \<le> now) rows
   \<Longrightarrow> find (\<lambda>r. row_key r = key \<and> row_type r = type \<and> now < row_expiresAt r) rows = None"
  by (induction rows) auto

lemma findFirst_unexpired:
  assumes "aICache_findFirst now d key type = Inr (Some r)"
  shows "now < row_expiresAt r \<and> row_key r = key \<and> row_type r = type"
  using assms
  by (auto simp: aICache_findFirst_def find_Some_iff split: if_splits option.splits)

lemma expired_rows_absent:
  assumes "redis_tier rt now w key = Inr None \<or> isl (redis_tier rt now w key)"
    and "ai_cache (db w) = Some rows"
    and "list_all (\<lambda>r. row_key r = key \<and> row_type r = type \<longrightarrow> row_expiresAt r \<le> now) rows"
  shows "fst (getCachedResult rt now w key type) = Inr JNull"
  using assms(1,2) find_all_expired [OF assms(3)]
  by (auto simp: getCachedResult_def getCachedResult_try_def database_tier_def
      aICache_findFirst_def isl_def split: sum.splits option.splits prod.splits)

lemma sweep_deletes_expired:
  assumes "connected (db w)" and "ai_cache (db w) = Some rows"
  shows "ai_cache (db (snd (cleanupExpiredCache now w)))
       = Some (filter (\<lambda>r. \<not> row_expiresAt r < now) rows)"
  using assms
  by (simp add: cleanupExpiredCache_def cleanupExpiredCache_try_def queryRaw_ai_cache_def
      aICache_deleteMany_def console_write_def)

text \<open>
  C7, as the code has it. The durable lookup of \<^verbatim>\<open>getCachedResult\<close> only returns rows
  with \<open>expiresAt > now\<close>: when Redis does not answer the lookup and every row for the
  key and the kind has \<open>expiresAt \<le> now\<close>, the caller gets null. On a reachable store
  \<^verbatim>\<open>cleanupExpiredCache\<close> deletes the rows with \<open>expiresAt < now\<close> and keeps all
  others, so a row whose expiry lies in the past is gone after the next sweep; a row that
  expires at this very instant is kept.
\<close>

theorem expiry_semantics:
  "(aICache_findFirst now d key type = Inr (Some r) \<longrightarrow> now < row_expiresAt r)
   \<and> ((redis_tier rt now w key = Inr None \<or> isl (redis_tier rt now w key))
        \<and> ai_cache (db w) = Some rows
        \<and> list_all (\<lambda>r. row_key r = key \<and> row_type r = type \<longrightarrow> row_expiresAt r \<le> now) rows
       \<longrightarrow> fst (getCachedResult rt now w key type) = Inr JNull)
   \<and> (connected (db w) \<and> ai_cache (db w) = Some rows
       \<longrightarrow> ai_cache (db (snd (cleanupExpiredCache now w)))
            = Some (filter (\<lambda>r. \<not> row_expiresAt r < now) rows))"
proof (intro conjI impI)
  assume "aICache_findFirst now d key type = Inr (Some r)"
  then show "now < row_expiresAt r" by (simp add: findFirst_unexpired)
next
  assume "(redis_tier rt now w key = Inr None \<or> isl (redis_tier rt now w key))
        \<and> ai_cache (db w) = Some rows
        \<and> list_all (\<lambda>r. row_key r = key \<and> row_type r = type \<longrightarrow> row_expiresAt r \<le> now) rows"
  then show "fst (getCachedResult rt now w key type) = Inr JNull"
    using expired_rows_absent [of rt now w key rows type] by simp
next
  assume "connected (db w) \<and> ai_cache (db w) = Some rows"
  then show "ai_cache (db (snd (cleanupExpiredCache now w)))
            = Some (filter (\<lambda>r. \<not> row_expiresAt r < now) rows)"
    by (simp add: sweep_deletes_expired)
qed

theorem expiry_semantics_witness:
  "aICache_findFirst 1000
      (db (sample_world None None (Some [\<lparr>row_key = ''k'', row_result = JArr [],
             row_type = ''tags'', row_expiresAt = 9000\<rparr>]))) ''k'' ''tags''
     = Inr (Some \<lparr>row_key = ''k'', row_result = JArr [], row_type = ''tags'',
                  row_expiresAt = 9000\<rparr>)
   \<and> redis_tier sample_runtime 1000
        (sample_world None None (Some [\<lparr>row_key = ''k'', row_result = JArr [],
             row_type = ''tags'', row_expiresAt = 500\<rparr>])) ''k'' = Inr None
   \<and> list_all (\<lambda>r. row_key r = ''k'' \<and> row_type r = ''tags'' \<longrightarrow> row_expiresAt r \<le> 1000)
        [\<lparr>row_key = ''k'', row_result = JArr [], row_type = ''tags'', row_expiresAt = 500\<rparr>]
   \<and> fst (getCachedResult sample_runtime 1000
        (sample_world None None (Some [\<lparr>row_key = ''k'', row_result = JArr [],
             row_type = ''tags'', row_expiresAt = 500\<rparr>])) ''k'' ''tags'') = Inr JNull
   \<and> ai_cache (db (snd (cleanupExpiredCache 1000
        (sample_world None None (Some [\<lparr>row_key = ''k'', row_result = JArr [],
             row_type = ''tags'', row_expiresAt = 500\<rparr>,
           \<lparr>row_key = ''j'', row_result = JArr [], row_type = ''tags'',
             row_expiresAt = 9000\<rparr>]))))) 
     = Some [\<lparr>row_key = ''j'', row_result = JArr [], row_type = ''tags'', row_expiresAt = 9000\<rparr>]"
  using expiry_semantics
     [where now = 1000 and key = "''k''" and type = "''tags''" and rt = sample_runtime
        and d = "db (sample_world None None (Some [\<lparr>row_key = ''k'', row_result = JArr [],
             row_type = ''tags'', row_expiresAt = 9000\<rparr>]))"
        and r = "\<lparr>row_key = ''k'', row_result = JArr [], row_type = ''tags'',
                  row_expiresAt = 9000\<rparr>"
        and w = "sample_world None None (Some [\<lparr>row_key = ''k'', row_result = JArr [],
             row_type = ''tags'', row_expiresAt = 500\<rparr>])"
        and rows = "[\<lparr>row_key = ''k'', row_result = JArr [], row_type = ''tags'',
             row_expiresAt = 500\<rparr>]"]
    expiry_semantics
     [where now = 1000 and rt = sample_runtime
        and w = "sample_world None None (Some [\<lparr>row_key = ''k'', row_result = JArr [],
             row_type = ''tags'', row_expiresAt = 500\<rparr>,
           \<lparr>row_key = ''j'', row_result = JArr [], row_type = ''tags'',
             row_expiresAt = 9000\<rparr>])"
        and rows = "[\<lparr>row_key = ''k'', row_result = JArr [],
             row_type = ''tags'', row_expiresAt = 500\<rparr>,
           \<lparr>row_key = ''j'', row_result = JArr [], row_type = ''tags'',
             row_expiresAt = 9000\<rparr>]"]
  by (simp add: eval_defs)

text \<open>
  The claim as the specification states it fails at the boundary: a row that expires at
  the instant of the sweep has \<open>expiresAt \<le> now\<close>, is no longer returned by the lookup,
  and survives the sweep.
\<close>

theorem sweep_boundary_counterexample:
  "row_expiresAt \<lparr>row_key = ''k'', row_result = JArr [], row_type = ''tags'',
                   row_expiresAt = 1000\<rparr> \<le> 1000
   \<and> fst (getCachedResult sample_runtime 1000
        (sample_world None None (Some [\<lparr>row_key = ''k'', row_result = JArr [],
             row_type = ''tags'', row_expiresAt = 1000\<rparr>])) ''k'' ''tags'') = Inr JNull
   \<and> cleanupExpiredCache 1000
        (sample_world None None (Some [\<lparr>row_key = ''k'', row_result = JArr [],
             row_type = ''tags'', row_expiresAt = 1000\<rparr>]))
     = (Inr (), sample_world None None (Some [\<lparr>row_key = ''k'', row_result = JArr [],
             row_type = ''tags'', row_expiresAt = 1000\<rparr>]))"
  by (simp add: eval_defs)

section \<open>Writing, then reading\<close>

lemma find_upserted:
  assumes "row_type n = type" and "now' < row_expiresAt n"
  shows "find (\<lambda>r. row_key r = row_key n \<and> row_type r = type \<and> now' < row_expiresAt r)
           (upsert_row n rows) = Some n"
  using assms by (induction rows) simp_all

lemma durable_round_trip:
  assumes "AI_CACHE_TTL rt = Some ttl" and "now' < now + ttl * 1000"
    and "valid_time (now + ttl * 1000)" and "connected (db w)"
    and "ai_cache (db w) = Some rows" and "redis w = None"
  shows "fst (getCachedResult rt now' (snd (cacheResult rt now w key type result)) key type)
       = Inr result"
proof -
  let ?n = "\<lparr>row_key = key, row_result = result, row_type = type,
             row_expiresAt = now + ttl * 1000\<rparr>"
  have f: "find (\<lambda>r. row_key r = key \<and> row_type r = type \<and> now' < row_expiresAt r)
             (upsert_row ?n rows) = Some ?n"
    using assms(2) find_upserted [of ?n type now' rows] by simp
  show ?thesis
    using assms(1,3-6) f
    by (simp add: cacheResult_def cacheResult_try_def Let_def aICache_upsert_def new_Date_def
        getCachedResult_def getCachedResult_try_def redis_tier_def database_tier_def
        aICache_findFirst_def)
qed

lemma volatile_round_trip:
  assumes "AI_CACHE_TTL rt = Some ttl" and "0 < ttl" and "now' < now + ttl * 1000"
    and "valid_time (now + ttl * 1000)"
    and "connected (db w)" and "ai_cache (db w) = Some rows"
    and "redis w = Some c" and "status c = Ready"
    and "JSON_stringify rt result \<noteq> []"
    and "JSON_parse rt (JSON_stringify rt result) = Inr result"
  shows "fst (getCachedResult rt now' (snd (cacheResult rt now w key type result)) key type)
       = Inr result"
proof -
  have "now + ttl * 1000 \<le> 9223372036854775807"
    using assms(4) by (simp add: valid_time_def)
  then show ?thesis
    using assms
    by (simp add: cacheResult_def cacheResult_try_def Let_def aICache_upsert_def new_Date_def
        redis_setex_def getCachedResult_def getCachedResult_try_def redis_tier_def redis_get_def)
qed

text \<open>
  C9, as the code has it. Let the time-to-live be positive and the instant at which the
  entry expires a valid date, the database reachable with its cache table, and the lookup
  happen before the entry expires. Without a Redis client \<^verbatim>\<open>cacheResult\<close> followed by
  \<^verbatim>\<open>getCachedResult\<close> with the same key and kind returns the written result, served by
  the durable tier alone. With a client in working order it returns the written result
  too, provided \<^verbatim>\<open>JSON.parse\<close> reads back what \<^verbatim>\<open>JSON.stringify\<close> wrote.
\<close>

theorem put_get_round_trip:
  assumes "AI_CACHE_TTL rt = Some ttl" and "0 < ttl"
    and "now \<le> now'" and "now' < now + ttl * 1000" and "valid_time (now + ttl * 1000)"
    and "connected (db w)" and "ai_cache (db w) = Some rows"
  shows "(redis w = None \<longrightarrow>
           fst (getCachedResult rt now' (snd (cacheResult rt now w key type result)) key type)
             = Inr result)
       \<and> (redis w = Some c \<and> status c = Ready \<and> JSON_stringify rt result \<noteq> []
            \<and> JSON_parse rt (JSON_stringify rt result) = Inr result \<longrightarrow>
           fst (getCachedResult rt now' (snd (cacheResult rt now w key type result)) key type)
             = Inr result)"
  using durable_round_trip [OF assms(1) assms(4-7)]
    volatile_round_trip [OF assms(1,2) assms(4-7)]
  by blast

theorem put_get_round_trip_witness:
  "AI_CACHE_TTL sample_runtime = Some 3600 \<and> (0::int) < 3600 \<and> (1000::int) \<le> 2000
   \<and> (2000::int) < 1000 + 3600 * 1000 \<and> valid_time (1000 + 3600 * 1000)
   \<and> fst (getCachedResult sample_runtime 2000
          (snd (cacheResult sample_runtime 1000 (sample_world None None (Some []))
                  ''k'' ''tags'' (JArr [JStr ''park'', JStr ''happy''])))
          ''k'' ''tags'') = Inr (JArr [JStr ''park'', JStr ''happy''])
   \<and> JSON_parse sample_runtime
         (JSON_stringify sample_runtime (JArr [JStr ''park'', JStr ''happy'']))
       = Inr (JArr [JStr ''park'', JStr ''happy''])
   \<and> fst (getCachedResult sample_runtime 2000
          (snd (cacheResult sample_runtime 1000
                  (sample_world None (Some \<lparr>status = Ready, store = []\<rparr>) (Some []))
                  ''k'' ''tags'' (JArr [JStr ''park'', JStr ''happy''])))
          ''k'' ''tags'') = Inr (JArr [JStr ''park'', JStr ''happy''])"
  using put_get_round_trip
     [where rt = sample_runtime and ttl = 3600 and now = 1000 and now' = 2000 and key = "''k''"
        and type = "''tags''" and result = "JArr [JStr ''park'', JStr ''happy'']"
        and w = "sample_world None None (Some [])" and rows = "[]"]
    put_get_round_trip
     [where rt = sample_runtime and ttl = 3600 and now = 1000 and now' = 2000 and key = "''k''"
        and type = "''tags''" and result = "JArr [JStr ''park'', JStr ''happy'']"
        and w = "sample_world None (Some \<lparr>status = Ready, store = []\<rparr>) (Some [])"
        and rows = "[]" and c = "\<lparr>status = Ready, store = []\<rparr>"]
  by (simp add: eval_defs)

text \<open>
  The claim as the specification states it fails for a positive time-to-live that takes
  the expiry out of the range of dates: without a Redis client and with a reachable
  database, \<^verbatim>\<open>new Date(Date.now() + ttl * 1000)\<close> is an Invalid Date, the upsert is
  rejected and caught, and the lookup that follows at once finds nothing. It also fails
  with the default time-to-live where a Redis that can be reached refuses the write: the
  row is not upserted and the lookup finds nothing in either tier.
\<close>

theorem put_get_ttl_counterexample:
  "(0::int) < 9999999999999
   \<and> \<not> valid_time (1000 + 9999999999999 * 1000)
   \<and> ai_cache (db (snd (cacheResult (sample_runtime\<lparr>AI_CACHE_TTL := Some 9999999999999\<rparr>) 1000
          (sample_world None None (Some []))
          ''k'' ''tags'' (JArr [JStr ''park'', JStr ''happy''])))) = Some []
   \<and> fst (getCachedResult (sample_runtime\<lparr>AI_CACHE_TTL := Some 9999999999999\<rparr>) 1000
          (snd (cacheResult (sample_runtime\<lparr>AI_CACHE_TTL := Some 9999999999999\<rparr>) 1000
                  (sample_world None None (Some []))
                  ''k'' ''tags'' (JArr [JStr ''park'', JStr ''happy''])))
          ''k'' ''tags'') = Inr JNull
   \<and> fst (getCachedResult sample_runtime 1000
          (snd (cacheResult sample_runtime 1000
                  (sample_world None (Some \<lparr>status = WritesRejected, store = []\<rparr>) (Some []))
                  ''k'' ''tags'' (JArr [JStr ''park'', JStr ''happy''])))
          ''k'' ''tags'') = Inr JNull
   \<and> JNull \<noteq> JArr [JStr ''park'', JStr ''happy'']"
  by (simp add: eval_defs)

text \<open>The scenario of the specification, computed.\<close>

lemma generateCacheKey_park:
  "generateCacheKey ''Had a great day at the park'' ''tags''
     = ''6c3cabf891ee5f17a74453fb4bc72dff693170bc18609419347b1275efc359e8''"
  by code_simp

end
